theory Spec2Isabelle
  imports Main "HOL-Library.Sublist"
begin

section \<open>Configuration (app.py, lines 12-30)\<close>

text \<open>
  Text values (form fields, file names, paths, file contents) are \<open>string\<close>s, read as
  UTF-8 bytes; every literal of the program is ASCII.
\<close>

definition UPLOAD_FOLDER :: string where
  "UPLOAD_FOLDER = ''static/images/uploads''"

definition ALLOWED_EXTENSIONS :: "string list" where
  "ALLOWED_EXTENSIONS = [''png'', ''jpg'', ''jpeg'', ''webp'']"

definition MAX_CONTENT_LENGTH :: nat where
  "MAX_CONTENT_LENGTH = 20 * 1024 * 1024"

definition default_cover :: string where
  "default_cover = ''images/default_cover.jpg''"

text \<open>The code of a character (\<open>ord\<close>); \<open>A\<close> is 65, \<open>a\<close> is 97, \<open>0\<close> is 48.\<close>

definition py_ord :: "char \<Rightarrow> nat" where
  "py_ord c = of_char c"

definition is_upper :: "char \<Rightarrow> bool" where
  "is_upper c \<longleftrightarrow> 65 \<le> py_ord c \<and> py_ord c \<le> 90"

definition is_lower :: "char \<Rightarrow> bool" where
  "is_lower c \<longleftrightarrow> 97 \<le> py_ord c \<and> py_ord c \<le> 122"

definition is_digit :: "char \<Rightarrow> bool" where
  "is_digit c \<longleftrightarrow> 48 \<le> py_ord c \<and> py_ord c \<le> 57"

text \<open>\<open>str.lower\<close> on the ASCII letters; other bytes are left as they are.\<close>

definition lower_char :: "char \<Rightarrow> char" where
  "lower_char c = (if is_upper c then char_of (py_ord c + 32) else c)"

text \<open>\<open>filename.rsplit('.', 1)[1]\<close>, for a name that contains a dot: what follows the last dot.\<close>

definition rsplit_dot_1 :: "string \<Rightarrow> string" where
  "rsplit_dot_1 s = rev (takeWhile (\<lambda>c. c \<noteq> CHR ''.'') (rev s))"

definition allowed_file :: "string \<Rightarrow> bool" where
  "allowed_file fname \<longleftrightarrow>
     CHR ''.'' \<in> set fname \<and> map lower_char (rsplit_dot_1 fname) \<in> set ALLOWED_EXTENSIONS"


section \<open>The book table (app.py, lines 39-45)\<close>

text \<open>
  A \<open>Book\<close> object as the handlers build it has the five data columns; a row of the table
  has the primary key as well.
\<close>

record book_fields =
  title :: string
  author :: string
  year :: int
  description :: string
  cover_image :: string

record book = book_fields +
  book_id :: int

type_synonym table = "book list"

definition with_id :: "book_fields \<Rightarrow> int \<Rightarrow> book" where
  "with_id f i =
     \<lparr>title = title f, author = author f, year = year f, description = description f,
      cover_image = cover_image f, book_id = i\<rparr>"

text \<open>
  The key of a new row is chosen by the database engine, not by the handlers: the column is
  an integer primary key (line 40) of an SQLite database (line 17), declared without
  AUTOINCREMENT, so the engine takes 1 for an empty table and otherwise one more than the
  largest key stored at that moment. (At the largest 64-bit key the engine would look for
  a free key at random; the handlers, which start at 1 and go up by one, do not get there.)
\<close>

definition next_rowid :: "table \<Rightarrow> int" where
  "next_rowid rows = (case map book_id rows of [] \<Rightarrow> 1 | i # is \<Rightarrow> fold max is i + 1)"

text \<open>
  The exceptions and HTTP errors with which a handler can end: the 404 of \<open>get_or_404\<close>,
  the 400 of a missing form entry, the \<open>ValueError\<close> of \<open>int\<close>, the \<open>OverflowError\<close> of
  the database driver, the 413 of the framework, and the errors of opening a file.
\<close>

datatype error =
    NotFound
  | BadRequestKeyError string
  | ValueError
  | OverflowError
  | RequestEntityTooLarge
  | IsADirectoryError
  | FileNotFoundError
  | OSError

text \<open>
  An SQLite INTEGER is a signed 64-bit number. The driver raises \<open>OverflowError\<close> when it
  is handed a Python integer outside that range, whether as a value to store or as a key
  to look up, and nothing is stored then.
\<close>

definition sqlite_integer :: "int \<Rightarrow> bool" where
  "sqlite_integer n \<longleftrightarrow> - (2 ^ 63) \<le> n \<and> n < 2 ^ 63"

text \<open>\<open>db.session.add(new_book); db.session.commit()\<close>\<close>

definition session_add_commit :: "table \<Rightarrow> book_fields \<Rightarrow> error + table" where
  "session_add_commit rows f =
     (if sqlite_integer (year f) then Inr (rows @ [with_id f (next_rowid rows)])
      else Inl OverflowError)"

text \<open>Committing a loaded and modified object: the row with its key is replaced.\<close>

definition session_update_commit :: "table \<Rightarrow> book \<Rightarrow> error + table" where
  "session_update_commit rows b =
     (if sqlite_integer (year b) then Inr (map (\<lambda>r. if book_id r = book_id b then b else r) rows)
      else Inl OverflowError)"

text \<open>\<open>db.session.delete(book); db.session.commit()\<close>\<close>

definition session_delete_commit :: "table \<Rightarrow> book \<Rightarrow> table" where
  "session_delete_commit rows b = filter (\<lambda>r. book_id r \<noteq> book_id b) rows"

definition query_get :: "table \<Rightarrow> int \<Rightarrow> book option" where
  "query_get rows i = find (\<lambda>b. book_id b = i) rows"

text \<open>\<open>Book.query.get_or_404(book_id)\<close>\<close>

definition get_or_404 :: "table \<Rightarrow> int \<Rightarrow> error + book" where
  "get_or_404 rows i =
     (if sqlite_integer i then
        (case query_get rows i of None \<Rightarrow> Inl NotFound | Some b \<Rightarrow> Inr b)
      else Inl OverflowError)"


section \<open>Requests, files and the state of the application\<close>

text \<open>
  The routes of \<open>add_book\<close> and \<open>edit_book\<close> take GET and POST (and HEAD, which the
  framework adds to GET); the handlers only ask whether the method is POST.
\<close>

datatype http_method = GET | HEAD | POST

text \<open>An uploaded file (\<open>FileStorage\<close>): the name the client sent and the bytes.\<close>

record upload =
  filename :: string
  content :: string

text \<open>
  \<open>content_length\<close> is the size of the request body in bytes; the body of a form
  submission holds the bytes of every file it uploads.
\<close>

record request =
  rq_method :: http_method
  form :: "string \<rightharpoonup> string"
  files :: "string \<rightharpoonup> upload"
  content_length :: nat

text \<open>The persistent state: the table of books and the files on disk, by path.\<close>

record state =
  db :: table
  fs :: "string \<rightharpoonup> string"

datatype response =
    Render_index table
  | Render_book_detail book
  | Render_add_book
  | Render_edit_book book
  | Redirect_index
  | Redirect_book_detail int

text \<open>
  What the handlers take from outside the program and what this text does not spell out:
  \<^item> \<open>normalize_nfkd\<close>: \<open>unicodedata.normalize("NFKD", s)\<close>, which works from the Unicode
    character database; on ASCII text it is the identity;
  \<^item> \<open>int_of_str\<close>: the built-in \<open>int(s)\<close> on a string, \<open>None\<close> where it raises
    \<open>ValueError\<close> (its white space, its digits of every script and its limit on the
    number of digits are those of the interpreter);
  \<^item> \<open>body_refused\<close>: whether the framework refuses the body for one of its own limits
    that the program does not set (the number of parts, the size of a form field);
  \<^item> \<open>write_refused\<close>: whether the file system refuses to create or fill a file at a
    path, given what is on disk (name too long, missing directory, no permission, no
    space).
\<close>

record runtime =
  normalize_nfkd :: "string \<Rightarrow> string"
  int_of_str :: "string \<Rightarrow> int option"
  body_refused :: "request \<Rightarrow> bool"
  write_refused :: "(string \<rightharpoonup> string) \<Rightarrow> string \<Rightarrow> string \<Rightarrow> bool"


section \<open>Library functions the handlers call\<close>

subsection \<open>\<open>werkzeug.utils.secure_filename\<close>\<close>

text \<open>
  The function imported at line 4, on a POSIX system (the separator is \<open>/\<close>, there is no
  alternative separator and no reserved device name):
  \<^verbatim>\<open>
  filename = unicodedata.normalize("NFKD", filename)
  filename = filename.encode("ascii", "ignore").decode("ascii")
  filename = filename.replace("/", " ")
  filename = str(re.compile(r"[^A-Za-z0-9_.-]").sub("", "_".join(filename.split()))).strip("._")
  \<close>
  The Unicode normalisation is the parameter \<open>nfkd\<close>; the handlers pass
  \<open>normalize_nfkd\<close> of the runtime.
\<close>

definition is_ascii :: "char \<Rightarrow> bool" where
  "is_ascii c \<longleftrightarrow> py_ord c < 128"

text \<open>
  White space as \<open>str.split()\<close> sees it, among ASCII characters: tab, line feed, vertical
  tab, form feed, carriage return, the four separators 0x1C..0x1F and the space.
\<close>

definition py_space :: "char \<Rightarrow> bool" where
  "py_space c \<longleftrightarrow>
     (let n = py_ord c in (9 \<le> n \<and> n \<le> 13) \<or> (28 \<le> n \<and> n \<le> 32))"

definition replace_sep :: "string \<Rightarrow> string" where
  "replace_sep s = map (\<lambda>c. if c = CHR ''/'' then CHR '' '' else c) s"

text \<open>\<open>s.split()\<close>: the maximal runs of characters that are not white space.\<close>

function split_ws :: "string \<Rightarrow> string list" where
  "split_ws [] = []"
| "split_ws (c # cs) =
     (if py_space c then split_ws cs
      else (c # takeWhile (\<lambda>x. \<not> py_space x) cs) # split_ws (dropWhile (\<lambda>x. \<not> py_space x) cs))"
  by pat_completeness auto
termination
  by (relation "measure length") (auto simp: length_dropWhile_le less_Suc_eq_le)

text \<open>\<open>"_".join(words)\<close>\<close>

fun join_underscore :: "string list \<Rightarrow> string" where
  "join_underscore [] = []"
| "join_underscore [w] = w"
| "join_underscore (w # v # ws) = w @ CHR ''_'' # join_underscore (v # ws)"

definition safe_char :: "char \<Rightarrow> bool" where
  "safe_char c \<longleftrightarrow>
     is_upper c \<or> is_lower c \<or> is_digit c \<or> c = CHR ''_'' \<or> c = CHR ''.'' \<or> c = CHR ''-''"

definition dot_or_underscore :: "char \<Rightarrow> bool" where
  "dot_or_underscore c \<longleftrightarrow> c = CHR ''.'' \<or> c = CHR ''_''"

text \<open>\<open>s.strip("._")\<close>\<close>

definition strip_dot_underscore :: "string \<Rightarrow> string" where
  "strip_dot_underscore s =
     rev (dropWhile dot_or_underscore (rev (dropWhile dot_or_underscore s)))"

definition secure_filename :: "(string \<Rightarrow> string) \<Rightarrow> string \<Rightarrow> string" where
  "secure_filename nfkd fname =
     (let f1 = nfkd fname;
          f2 = filter is_ascii f1;
          f3 = replace_sep f2
      in strip_dot_underscore (filter safe_char (join_underscore (split_ws f3))))"

subsection \<open>\<open>os.path.join\<close> and \<open>FileStorage.save\<close>\<close>

text \<open>\<open>posixpath.join\<close> of two parts.\<close>

definition os_path_join :: "string \<Rightarrow> string \<Rightarrow> string" where
  "os_path_join a b =
     (if b \<noteq> [] \<and> hd b = CHR ''/'' then b
      else if a = [] \<or> last a = CHR ''/'' then a @ b
      else a @ ''/'' @ b)"

text \<open>
  \<open>uploaded_file.save(dst)\<close> opens \<open>dst\<close> for writing and copies the bytes. A path that
  ends with the separator names a directory and cannot be opened as a file; the empty
  path names nothing; the file system can refuse any other path. An existing file is
  overwritten.
\<close>

definition save ::
  "runtime \<Rightarrow> upload \<Rightarrow> string \<Rightarrow> (string \<rightharpoonup> string) \<Rightarrow> error + (string \<rightharpoonup> string)" where
  "save rt f dst disk =
     (if dst = [] then Inl FileNotFoundError
      else if last dst = CHR ''/'' then Inl IsADirectoryError
      else if write_refused rt disk dst (content f) then Inl OSError
      else Inr (disk(dst \<mapsto> content f)))"


section \<open>The request handlers (app.py, lines 55-157)\<close>

text \<open>
  The framework parses the body when \<open>request.files\<close> or \<open>request.form\<close> is first read.
  At that point it refuses, with the status 413, a body longer than
  \<open>MAX_CONTENT_LENGTH\<close> (line 26) and a body over one of its own limits.
\<close>

definition load_form_data :: "runtime \<Rightarrow> request \<Rightarrow> error + unit" where
  "load_form_data rt req =
     (if MAX_CONTENT_LENGTH < content_length req then Inl RequestEntityTooLarge
      else if body_refused rt req then Inl RequestEntityTooLarge
      else Inr ())"

text \<open>\<open>request.form[key]\<close>\<close>

definition form_item :: "request \<Rightarrow> string \<Rightarrow> error + string" where
  "form_item req k = (case form req k of None \<Rightarrow> Inl (BadRequestKeyError k) | Some v \<Rightarrow> Inr v)"

text \<open>
  Lines 96-99 and 117-120 read the same four entries in the same order:
  \<open>request.form['title']\<close>, \<open>request.form['author']\<close>, \<open>int(request.form['year'])\<close>,
  \<open>request.form['description']\<close>.
\<close>

definition read_scalars ::
  "runtime \<Rightarrow> request \<Rightarrow> error + (string \<times> string \<times> int \<times> string)" where
  "read_scalars rt req =
     (case form_item req ''title'' of Inl e \<Rightarrow> Inl e | Inr t \<Rightarrow>
      case form_item req ''author'' of Inl e \<Rightarrow> Inl e | Inr a \<Rightarrow>
      case form_item req ''year'' of Inl e \<Rightarrow> Inl e | Inr ys \<Rightarrow>
      case int_of_str rt ys of None \<Rightarrow> Inl ValueError | Some y \<Rightarrow>
      case form_item req ''description'' of Inl e \<Rightarrow> Inl e | Inr d \<Rightarrow>
      Inr (t, a, y, d))"

text \<open>
  Lines 83-92 and 130-136: sanitise the name, build the path, save the file, and give the
  reference to store in the record.
\<close>

definition store_upload ::
  "runtime \<Rightarrow> upload \<Rightarrow> (string \<rightharpoonup> string) \<Rightarrow> error + ((string \<rightharpoonup> string) \<times> string)" where
  "store_upload rt f disk =
     (let fname = secure_filename (normalize_nfkd rt) (filename f);
          save_path = os_path_join UPLOAD_FOLDER fname
      in case save rt f save_path disk of
           Inl e \<Rightarrow> Inl e
         | Inr disk' \<Rightarrow> Inr (disk', ''images/uploads/'' @ fname))"

definition index :: "state \<Rightarrow> response" where
  "index s = Render_index (db s)"

definition book_detail :: "int \<Rightarrow> state \<Rightarrow> error + response" where
  "book_detail i s =
     (case get_or_404 (db s) i of Inl e \<Rightarrow> Inl e | Inr b \<Rightarrow> Inr (Render_book_detail b))"

text \<open>Lines 74-92 of \<open>add_book\<close>: the cover reference of the new book, and the disk after it.\<close>

definition add_book_cover ::
  "runtime \<Rightarrow> request \<Rightarrow> (string \<rightharpoonup> string) \<Rightarrow> error + ((string \<rightharpoonup> string) \<times> string)" where
  "add_book_cover rt req disk =
     (case files req ''cover_image'' of
        None \<Rightarrow> Inr (disk, default_cover)
      | Some uploaded_file \<Rightarrow>
          if filename uploaded_file \<noteq> [] then store_upload rt uploaded_file disk
          else Inr (disk, default_cover))"

text \<open>Lines 95-101 of \<open>add_book\<close>: the \<open>Book\<close> object built from the form.\<close>

definition new_book :: "runtime \<Rightarrow> request \<Rightarrow> string \<Rightarrow> error + book_fields" where
  "new_book rt req cover_path =
     (case read_scalars rt req of
        Inl e \<Rightarrow> Inl e
      | Inr (t, a, y, d) \<Rightarrow>
          Inr \<lparr>title = t, author = a, year = y, description = d, cover_image = cover_path\<rparr>)"

text \<open>
  A handler gives its outcome and the state it leaves. A file that was saved before an
  exception stays on disk; the table changes at a commit that succeeds, and only then.
\<close>

definition add_book :: "runtime \<Rightarrow> request \<Rightarrow> state \<Rightarrow> (error + response) \<times> state" where
  "add_book rt req s =
     (if rq_method req = POST then
        (case load_form_data rt req of
           Inl e \<Rightarrow> (Inl e, s)
         | Inr _ \<Rightarrow>
            (case add_book_cover rt req (fs s) of
               Inl e \<Rightarrow> (Inl e, s)
             | Inr (disk', cover_path) \<Rightarrow>
                (case new_book rt req cover_path of
                   Inl e \<Rightarrow> (Inl e, s\<lparr>fs := disk'\<rparr>)
                 | Inr nb \<Rightarrow>
                    (case session_add_commit (db s) nb of
                       Inl e \<Rightarrow> (Inl e, s\<lparr>fs := disk'\<rparr>)
                     | Inr rows \<Rightarrow> (Inr Redirect_index, \<lparr>db = rows, fs = disk'\<rparr>)))))
      else (Inr Render_add_book, s))"

text \<open>Lines 124-136 of \<open>edit_book\<close>: the cover of the loaded book after the upload, if any.\<close>

definition edit_book_cover ::
  "runtime \<Rightarrow> request \<Rightarrow> book \<Rightarrow> (string \<rightharpoonup> string) \<Rightarrow> error + ((string \<rightharpoonup> string) \<times> book)" where
  "edit_book_cover rt req b disk =
     (case files req ''cover_image'' of
        None \<Rightarrow> Inr (disk, b)
      | Some uploaded_file \<Rightarrow>
          if filename uploaded_file \<noteq> [] then
            (case store_upload rt uploaded_file disk of
               Inl e \<Rightarrow> Inl e
             | Inr (disk', p) \<Rightarrow> Inr (disk', b\<lparr>cover_image := p\<rparr>))
          else Inr (disk, b))"

definition edit_book :: "runtime \<Rightarrow> int \<Rightarrow> request \<Rightarrow> state \<Rightarrow> (error + response) \<times> state" where
  "edit_book rt i req s =
     (case get_or_404 (db s) i of
        Inl e \<Rightarrow> (Inl e, s)
      | Inr book_to_update \<Rightarrow>
          if rq_method req = POST then
            (case load_form_data rt req of
               Inl e \<Rightarrow> (Inl e, s)
             | Inr _ \<Rightarrow>
                (case read_scalars rt req of
                   Inl e \<Rightarrow> (Inl e, s)
                 | Inr (t, a, y, d) \<Rightarrow>
                    (case edit_book_cover rt req
                            (book_to_update\<lparr>title := t, author := a, year := y, description := d\<rparr>)
                            (fs s) of
                       Inl e \<Rightarrow> (Inl e, s)
                     | Inr (disk', b') \<Rightarrow>
                        (case session_update_commit (db s) b' of
                           Inl e \<Rightarrow> (Inl e, s\<lparr>fs := disk'\<rparr>)
                         | Inr rows \<Rightarrow>
                             (Inr (Redirect_book_detail (book_id b')),
                              \<lparr>db = rows, fs = disk'\<rparr>)))))
          else (Inr (Render_edit_book book_to_update), s))"

definition delete_book :: "int \<Rightarrow> state \<Rightarrow> (error + response) \<times> state" where
  "delete_book i s =
     (case get_or_404 (db s) i of
        Inl e \<Rightarrow> (Inl e, s)
      | Inr book_to_delete \<Rightarrow>
          (Inr Redirect_index, s\<lparr>db := session_delete_commit (db s) book_to_delete\<rparr>))"



section \<open>Sample requests and states\<close>

definition dune_form :: "string \<rightharpoonup> string" where
  "dune_form =
     [''title'' \<mapsto> ''Dune'', ''author'' \<mapsto> ''Frank Herbert'', ''year'' \<mapsto> ''1965'',
      ''description'' \<mapsto> ''desc'']"

definition dune :: book where
  "dune =
     \<lparr>title = ''Dune'', author = ''Frank Herbert'', year = 1965, description = ''desc'',
      cover_image = ''images/default_cover.jpg'', book_id = 1\<rparr>"

text \<open>
  A runtime for the sample requests. Their file names are ASCII, which the normalisation
  leaves alone; of the years they submit, \<open>int\<close> reads 1965, 1966 and
  9223372036854775808 (which is \<open>2 ^ 63\<close>) and rejects \<open>abc\<close>; their bodies are small
  forms, and their file names are short names in a directory that exists. It stands for
  the interpreter and the framework at the sample requests only.
\<close>

definition sample_runtime :: runtime where
  "sample_runtime =
     \<lparr>normalize_nfkd = (\<lambda>s. s),
      int_of_str =
        [''1965'' \<mapsto> 1965, ''1966'' \<mapsto> 1966,
         ''9223372036854775808'' \<mapsto> 9223372036854775808],
      body_refused = (\<lambda>req. False),
      write_refused = (\<lambda>disk dst bytes. False)\<rparr>"

definition no_books :: state where
  "no_books = \<lparr>db = [], fs = Map.empty\<rparr>"

definition one_book :: state where
  "one_book = \<lparr>db = [dune], fs = Map.empty\<rparr>"

text \<open>A submission of the form without a file, with a file, and with a year that is no number.\<close>

definition post_dune :: request where
  "post_dune = \<lparr>rq_method = POST, form = dune_form, files = Map.empty, content_length = 400\<rparr>"

definition post_with :: "string \<Rightarrow> string \<Rightarrow> request" where
  "post_with fname ys =
     \<lparr>rq_method = POST, form = dune_form(''year'' \<mapsto> ys),
      files = [''cover_image'' \<mapsto> \<lparr>filename = fname, content = ''JFIF''\<rparr>],
      content_length = 600\<rparr>"

text \<open>The form without a file, with another title and the year given.\<close>

definition post_year :: "string \<Rightarrow> request" where
  "post_year ys =
     \<lparr>rq_method = POST, form = dune_form(''title'' \<mapsto> ''Dune Messiah'', ''year'' \<mapsto> ys),
      files = Map.empty, content_length = 400\<rparr>"

text \<open>A file of one byte more than the limit, and the form submitted with it.\<close>

definition big_upload :: upload where
  "big_upload = \<lparr>filename = ''big.jpg'', content = replicate 20971521 (CHR ''x'')\<rparr>"

definition post_big :: request where
  "post_big =
     \<lparr>rq_method = POST, form = dune_form, files = [''cover_image'' \<mapsto> big_upload],
      content_length = 20971921\<rparr>"


section \<open>Sequences of requests\<close>

text \<open>
  A client sends create, update and delete requests one after the other; each handler
  starts from the state the one before left.
\<close>

datatype operation = Create request | Update int request | Delete int

fun apply_operation :: "runtime \<Rightarrow> operation \<Rightarrow> state \<Rightarrow> state" where
  "apply_operation rt (Create req) s = snd (add_book rt req s)"
| "apply_operation rt (Update i req) s = snd (edit_book rt i req s)"
| "apply_operation rt (Delete i) s = snd (delete_book i s)"

fun run :: "runtime \<Rightarrow> operation list \<Rightarrow> state \<Rightarrow> state" where
  "run rt [] s = s"
| "run rt (opn # ops) s = run rt ops (apply_operation rt opn s)"

text \<open>
  The keys given out along a sequence, in order: after each step, the keys in the table
  that were not there before the step.
\<close>

fun assigned_ids :: "runtime \<Rightarrow> operation list \<Rightarrow> state \<Rightarrow> int list" where
  "assigned_ids rt [] s = []"
| "assigned_ids rt (opn # ops) s =
     filter (\<lambda>i. i \<notin> set (map book_id (db s)))
        (map book_id (db (apply_operation rt opn s)))
     @ assigned_ids rt ops (apply_operation rt opn s)"

section \<open>Facts about the table, the form and the sample data\<close>

lemma fold_max_ge: "x \<in> set (i # is) \<Longrightarrow> x \<le> fold max is (i::int)"
  unfolding Max.set_eq_fold [symmetric] by (rule Max_ge) auto

lemma next_rowid_greater: "r \<in> set rows \<Longrightarrow> book_id r < next_rowid rows"
proof -
  assume r: "r \<in> set rows"
  then obtain i "is" where m: "map book_id rows = i # is"
    by (cases rows) auto
  from r have "book_id r \<in> set (map book_id rows)" by simp
  with m have "book_id r \<le> fold max is i" using fold_max_ge by metis
  with m show ?thesis by (simp add: next_rowid_def)
qed

lemma next_rowid_fresh: "next_rowid rows \<notin> book_id ` set rows"
  using next_rowid_greater by fastforce

lemma query_get_None: "query_get rows i = None \<longleftrightarrow> i \<notin> book_id ` set rows"
  by (auto simp: query_get_def find_None_iff)

lemma query_get_Some_id: "query_get rows i = Some b \<Longrightarrow> book_id b = i \<and> b \<in> set rows"
  by (auto simp: query_get_def find_Some_iff)

lemma query_get_append_fresh:
  "i \<notin> book_id ` set rows \<Longrightarrow> book_id b = i \<Longrightarrow> query_get (rows @ [b]) i = Some b"
  by (induction rows) (auto simp: query_get_def)



lemma get_or_404_Inr:
  "get_or_404 rows i = Inr b \<Longrightarrow> book_id b = i \<and> b \<in> set rows \<and> sqlite_integer i"
  by (auto simp: get_or_404_def split: option.splits if_splits dest: query_get_Some_id)

lemma get_or_404_cases:
  "get_or_404 rows i = Inl NotFound \<or> get_or_404 rows i = Inl OverflowError \<or>
   (\<exists>b. get_or_404 rows i = Inr b)"
  by (simp add: get_or_404_def split: option.splits)

lemma get_or_404_present:
  "sqlite_integer i \<Longrightarrow> i \<in> book_id ` set rows \<Longrightarrow> \<exists>b. get_or_404 rows i = Inr b"
  using query_get_None [of rows i] by (auto simp: get_or_404_def split: option.splits)

lemma load_form_data_ok:
  "content_length req \<le> MAX_CONTENT_LENGTH \<Longrightarrow> \<not> body_refused rt req \<Longrightarrow>
   load_form_data rt req = Inr ()"
  by (simp add: load_form_data_def)

lemma load_form_data_large:
  "MAX_CONTENT_LENGTH < content_length req \<Longrightarrow> load_form_data rt req = Inl RequestEntityTooLarge"
  by (simp add: load_form_data_def)

lemma load_form_data_cases:
  "load_form_data rt req = Inr () \<or> load_form_data rt req = Inl RequestEntityTooLarge"
  by (simp add: load_form_data_def)

lemma read_scalars_ok:
  "form req ''title'' = Some t \<Longrightarrow> form req ''author'' = Some a \<Longrightarrow>
   form req ''year'' = Some ys \<Longrightarrow> int_of_str rt ys = Some y \<Longrightarrow>
   form req ''description'' = Some d \<Longrightarrow> read_scalars rt req = Inr (t, a, y, d)"
  by (simp add: read_scalars_def form_item_def)

lemma read_scalars_bad:
  "form req ''title'' = None \<or> form req ''author'' = None \<or> form req ''year'' = None \<or>
   form req ''description'' = None \<or>
   (\<exists>ys. form req ''year'' = Some ys \<and> int_of_str rt ys = None) \<Longrightarrow>
   \<exists>e. read_scalars rt req = Inl e \<and> ((\<exists>k. e = BadRequestKeyError k) \<or> e = ValueError)"
  by (auto simp: read_scalars_def form_item_def split: option.splits)

lemma add_book_error_db:
  "fst (add_book rt req s) = Inl e \<Longrightarrow> db (snd (add_book rt req s)) = db s"
  by (auto simp: add_book_def split: if_splits sum.splits prod.splits)

lemma sample_int_1965: "int_of_str sample_runtime ''1965'' = Some 1965"
  by (simp add: sample_runtime_def)

lemma sample_int_1966: "int_of_str sample_runtime ''1966'' = Some 1966"
  by (simp add: sample_runtime_def)

lemma sample_int_abc: "int_of_str sample_runtime ''abc'' = None"
  by (simp add: sample_runtime_def)

lemma sample_int_big:
  "int_of_str sample_runtime ''9223372036854775808'' = Some 9223372036854775808"
  by (simp add: sample_runtime_def)

lemma sample_accepts: "\<not> body_refused sample_runtime req"
  by (simp add: sample_runtime_def)

lemma sample_writes: "\<not> write_refused sample_runtime disk dst bytes"
  by (simp add: sample_runtime_def)

lemma sample_nfkd: "normalize_nfkd sample_runtime = (\<lambda>s. s)"
  by (simp add: sample_runtime_def)

lemma sqlite_integer_1965: "sqlite_integer 1965"
  by (simp add: sqlite_integer_def)

lemma sqlite_integer_1966: "sqlite_integer 1966"
  by (simp add: sqlite_integer_def)

lemma sqlite_integer_1: "sqlite_integer 1"
  by (simp add: sqlite_integer_def)


lemma not_sqlite_integer_big: "\<not> sqlite_integer 9223372036854775808"
  by (simp add: sqlite_integer_def)

lemma max_content_length_value: "MAX_CONTENT_LENGTH = 20971520"
  by (simp add: MAX_CONTENT_LENGTH_def)

lemma update_rows_get:
  "get_or_404 rows i = Inr b \<Longrightarrow> book_id b' = i \<Longrightarrow>
   get_or_404 (map (\<lambda>r. if book_id r = book_id b' then b' else r) rows) i = Inr b'"
proof -
  assume b': "book_id b' = i"
  assume g: "get_or_404 rows i = Inr b"
  then have "i \<in> book_id ` set rows" and r: "sqlite_integer i" using get_or_404_Inr by blast+
  then have "query_get (map (\<lambda>r. if book_id r = book_id b' then b' else r) rows) i = Some b'"
    using b' by (induction rows) (auto simp: query_get_def)
  then show ?thesis using r by (simp add: get_or_404_def)
qed

lemma add_book_db:
  "db (snd (add_book rt req s)) = db s \<or>
   (\<exists>f. fst (add_book rt req s) = Inr Redirect_index \<and>
        db (snd (add_book rt req s)) = db s @ [with_id f (next_rowid (db s))])"
  by (auto simp: add_book_def session_add_commit_def split: sum.splits prod.splits if_splits)

lemma add_book_created:
  "fst (add_book rt req s) = Inr Redirect_index \<Longrightarrow>
   \<exists>f. db (snd (add_book rt req s)) = db s @ [with_id f (next_rowid (db s))]"
  by (auto simp: add_book_def session_add_commit_def split: sum.splits prod.splits if_splits)

lemma edit_book_ids: "map book_id (db (snd (edit_book rt i req s))) = map book_id (db s)"
proof -
  have "db (snd (edit_book rt i req s)) = db s \<or>
        (\<exists>b. db (snd (edit_book rt i req s)) =
              map (\<lambda>r. if book_id r = book_id b then b else r) (db s))"
    by (auto simp: edit_book_def session_update_commit_def
             split: sum.splits prod.splits if_splits)
  then show ?thesis by auto
qed

lemma delete_book_db:
  "db (snd (delete_book i s)) = db s \<or>
   db (snd (delete_book i s)) = filter (\<lambda>r. book_id r \<noteq> i) (db s)"
  by (auto simp: delete_book_def session_delete_commit_def split: sum.splits
           dest: get_or_404_Inr)

lemma with_id_book_id: "book_id (with_id f i) = i"
  by (simp add: with_id_def)

lemma next_rowid_value:
  "next_rowid rows = (if rows = [] then 1 else Max (book_id ` set rows) + 1)"
proof (cases rows)
  case Nil
  then show ?thesis by (simp add: next_rowid_def)
next
  case (Cons r rs)
  have "fold max (map book_id rs) (book_id r) = Max (set (book_id r # map book_id rs))"
    by (simp only: Max.set_eq_fold)
  then show ?thesis using Cons by (simp add: next_rowid_def)
qed

lemma apply_operation_distinct:
  assumes "distinct (map book_id (db s))"
  shows "distinct (map book_id (db (apply_operation rt opn s)))"
proof (cases opn)
  case (Create req)
  show ?thesis
    using add_book_db [of rt req s] assms next_rowid_fresh [of "db s"] Create
    by (auto simp: with_id_book_id)
next
  case (Update i req)
  then show ?thesis using assms by (simp add: edit_book_ids)
next
  case (Delete i)
  then show ?thesis
    using delete_book_db [of i s] assms by (auto simp: distinct_map_filter)
qed

lemma run_distinct:
  "distinct (map book_id (db s)) \<Longrightarrow> distinct (map book_id (db (run rt ops s)))"
  by (induction ops arbitrary: s) (simp_all add: apply_operation_distinct)

lemma get_1_one_book: "get_or_404 (db one_book) 1 = Inr dune"
  by (simp add: get_or_404_def query_get_def one_book_def dune_def sqlite_integer_def)

lemma add_post_dune_no_books:
  "add_book sample_runtime post_dune no_books = (Inr Redirect_index, one_book)"
  by (simp add: add_book_def post_dune_def no_books_def one_book_def dune_def load_form_data_def
        MAX_CONTENT_LENGTH_def sample_accepts add_book_cover_def default_cover_def new_book_def
        read_scalars_def form_item_def dune_form_def sample_int_1965 session_add_commit_def
        sqlite_integer_1965 with_id_def next_rowid_def)

lemma delete_1_one_book: "delete_book 1 one_book = (Inr Redirect_index, no_books)"
  by (simp add: delete_book_def get_1_one_book session_delete_commit_def)
    (simp add: one_book_def no_books_def dune_def)

lemma strip_dot_underscore_subset: "set (strip_dot_underscore s) \<subseteq> set s"
proof
  fix x
  assume "x \<in> set (strip_dot_underscore s)"
  then have "x \<in> set (dropWhile dot_or_underscore (rev (dropWhile dot_or_underscore s)))"
    by (simp add: strip_dot_underscore_def)
  then have "x \<in> set (rev (dropWhile dot_or_underscore s))" by (rule set_dropWhileD)
  then have "x \<in> set (dropWhile dot_or_underscore s)" by simp
  then show "x \<in> set s" by (rule set_dropWhileD)
qed

lemma rev_dropWhile_rev_prefix: "\<exists>zs. ys = rev (dropWhile P (rev ys)) @ zs"
proof -
  have "rev (takeWhile P (rev ys) @ dropWhile P (rev ys)) = ys"
    by (simp only: takeWhile_dropWhile_id rev_rev_ident)
  then have "rev (dropWhile P (rev ys)) @ rev (takeWhile P (rev ys)) = ys"
    by (simp only: rev_append)
  then show ?thesis by metis
qed

lemma strip_dot_underscore_hd:
  assumes "strip_dot_underscore s \<noteq> []"
  shows "\<not> dot_or_underscore (hd (strip_dot_underscore s))"
proof -
  let ?ys = "dropWhile dot_or_underscore s"
  obtain zs where z: "?ys = strip_dot_underscore s @ zs"
    using rev_dropWhile_rev_prefix [of ?ys dot_or_underscore]
    by (auto simp: strip_dot_underscore_def)
  with assms have "?ys \<noteq> []" and "hd ?ys = hd (strip_dot_underscore s)" by auto
  then show ?thesis using hd_dropWhile [of dot_or_underscore s] by simp
qed

lemma strip_dot_underscore_last:
  assumes "strip_dot_underscore s \<noteq> []"
  shows "\<not> dot_or_underscore (last (strip_dot_underscore s))"
proof -
  let ?zs = "rev (dropWhile dot_or_underscore s)"
  from assms have ne: "dropWhile dot_or_underscore ?zs \<noteq> []"
    by (simp add: strip_dot_underscore_def)
  have "last (strip_dot_underscore s) = hd (dropWhile dot_or_underscore ?zs)"
    using ne by (simp add: strip_dot_underscore_def last_rev)
  then show ?thesis using hd_dropWhile [OF ne] by simp
qed

lemma secure_filename_chars: "c \<in> set (secure_filename nfkd x) \<Longrightarrow> safe_char c"
  using strip_dot_underscore_subset by (fastforce simp: secure_filename_def Let_def)

lemma secure_filename_hd:
  "secure_filename nfkd x \<noteq> [] \<Longrightarrow> \<not> dot_or_underscore (hd (secure_filename nfkd x))"
  using strip_dot_underscore_hd by (simp add: secure_filename_def Let_def)

lemma secure_filename_last:
  "secure_filename nfkd x \<noteq> [] \<Longrightarrow> \<not> dot_or_underscore (last (secure_filename nfkd x))"
  using strip_dot_underscore_last by (simp add: secure_filename_def Let_def)

lemma not_safe_slash: "\<not> safe_char (CHR ''/'')"
  by (simp add: safe_char_def is_upper_def is_lower_def is_digit_def py_ord_def)

lemma secure_filename_no_slash: "CHR ''/'' \<notin> set (secure_filename nfkd x)"
  using secure_filename_chars not_safe_slash by blast

lemma store_upload_eq:
  "store_upload rt f disk =
     (if secure_filename (normalize_nfkd rt) (filename f) = [] then Inl IsADirectoryError
      else if write_refused rt disk
                (UPLOAD_FOLDER @ ''/'' @ secure_filename (normalize_nfkd rt) (filename f))
                (content f)
      then Inl OSError
      else Inr (disk(UPLOAD_FOLDER @ ''/'' @ secure_filename (normalize_nfkd rt) (filename f)
                       \<mapsto> content f),
                ''images/uploads/'' @ secure_filename (normalize_nfkd rt) (filename f)))"
proof (cases "secure_filename (normalize_nfkd rt) (filename f) = []")
  case True
  then show ?thesis
    by (simp add: store_upload_def os_path_join_def UPLOAD_FOLDER_def save_def)
next
  case False
  let ?n = "secure_filename (normalize_nfkd rt) (filename f)"
  have h: "hd ?n \<noteq> CHR ''/''"
    using False secure_filename_no_slash [of "normalize_nfkd rt" "filename f"] hd_in_set
    by metis
  have l: "last ?n \<noteq> CHR ''/''"
    using False secure_filename_no_slash [of "normalize_nfkd rt" "filename f"] last_in_set
    by metis
  have j: "os_path_join UPLOAD_FOLDER ?n = UPLOAD_FOLDER @ ''/'' @ ?n"
    using False h by (simp add: os_path_join_def UPLOAD_FOLDER_def)
  have "last (UPLOAD_FOLDER @ ''/'' @ ?n) = last ?n" using False by simp
  then show ?thesis
    using False l j by (simp add: store_upload_def save_def Let_def)
qed

lemma secure_filename_dune: "secure_filename (\<lambda>s. s) ''dune.jpg'' = ''dune.jpg''"
  by code_simp

lemma secure_filename_a_b: "secure_filename (\<lambda>s. s) ''a..b'' = ''a..b''"
  by code_simp

lemma secure_filename_dotdot: "secure_filename (\<lambda>s. s) ''..'' = []"
  by code_simp

lemma secure_filename_underscore: "secure_filename (\<lambda>s. s) ''_'' = []"
  by code_simp

lemma secure_filename_passwd: "secure_filename (\<lambda>s. s) ''../../etc/passwd'' = ''etc_passwd''"
  by code_simp

lemma secure_filename_exe: "secure_filename (\<lambda>s. s) ''notes.exe'' = ''notes.exe''"
  by code_simp

lemma store_upload_dune:
  "store_upload sample_runtime \<lparr>filename = ''dune.jpg'', content = c\<rparr> disk =
     Inr (disk(''static/images/uploads/dune.jpg'' \<mapsto> c), ''images/uploads/dune.jpg'')"
  by (simp add: store_upload_eq sample_nfkd sample_writes secure_filename_dune UPLOAD_FOLDER_def)

lemma store_upload_passwd:
  "store_upload sample_runtime \<lparr>filename = ''../../etc/passwd'', content = c\<rparr> disk =
     Inr (disk(''static/images/uploads/etc_passwd'' \<mapsto> c), ''images/uploads/etc_passwd'')"
  by (simp add: store_upload_eq sample_nfkd sample_writes secure_filename_passwd UPLOAD_FOLDER_def)

lemma add_book_fs_eq:
  "fs (snd (add_book rt req s)) =
     (case files req ''cover_image'' of
        None \<Rightarrow> fs s
      | Some f \<Rightarrow>
          if rq_method req = POST \<and> content_length req \<le> MAX_CONTENT_LENGTH \<and>
             \<not> body_refused rt req \<and> filename f \<noteq> [] \<and>
             secure_filename (normalize_nfkd rt) (filename f) \<noteq> [] \<and>
             \<not> write_refused rt (fs s)
                 (UPLOAD_FOLDER @ ''/'' @ secure_filename (normalize_nfkd rt) (filename f))
                 (content f)
          then (fs s)(UPLOAD_FOLDER @ ''/'' @ secure_filename (normalize_nfkd rt) (filename f)
                        \<mapsto> content f)
          else fs s)"
  by (simp add: add_book_def add_book_cover_def store_upload_eq load_form_data_def
           split: sum.splits prod.splits option.splits)

lemma edit_book_fs_eq:
  "fs (snd (edit_book rt i req s)) =
     (case files req ''cover_image'' of
        None \<Rightarrow> fs s
      | Some f \<Rightarrow>
          if (\<exists>b. get_or_404 (db s) i = Inr b) \<and> rq_method req = POST \<and>
             content_length req \<le> MAX_CONTENT_LENGTH \<and> \<not> body_refused rt req \<and>
             (\<exists>v. read_scalars rt req = Inr v) \<and> filename f \<noteq> [] \<and>
             secure_filename (normalize_nfkd rt) (filename f) \<noteq> [] \<and>
             \<not> write_refused rt (fs s)
                 (UPLOAD_FOLDER @ ''/'' @ secure_filename (normalize_nfkd rt) (filename f))
                 (content f)
          then (fs s)(UPLOAD_FOLDER @ ''/'' @ secure_filename (normalize_nfkd rt) (filename f)
                        \<mapsto> content f)
          else fs s)"
proof (cases "get_or_404 (db s) i")
  case (Inl e)
  then show ?thesis by (simp add: edit_book_def split: option.splits)
next
  case (Inr b)
  show ?thesis
  proof (cases "rq_method req = POST \<and> load_form_data rt req = Inr ()")
    case False
    then show ?thesis
      using Inr by (auto simp: edit_book_def load_form_data_def split: option.splits if_splits)
  next
    case True
    then have acc: "content_length req \<le> MAX_CONTENT_LENGTH \<and> \<not> body_refused rt req"
      by (auto simp: load_form_data_def split: if_splits)
    show ?thesis
    proof (cases "read_scalars rt req")
      case (Inl e)
      then show ?thesis
        using Inr True by (simp add: edit_book_def split: option.splits)
    next
      case v: (Inr v)
      obtain t a y d where "v = (t, a, y, d)" by (cases v) auto
      then show ?thesis
        using Inr True v acc
        by (simp add: edit_book_def edit_book_cover_def store_upload_eq
              split: option.splits sum.splits)
    qed
  qed
qed

lemma add_book_fs:
  "fs (snd (add_book rt req s)) = fs s \<or>
   (\<exists>f::upload. secure_filename (normalize_nfkd rt) (filename f) \<noteq> [] \<and>
        fs (snd (add_book rt req s)) =
          (fs s)(UPLOAD_FOLDER @ ''/'' @ secure_filename (normalize_nfkd rt) (filename f)
                   \<mapsto> content f))"
proof (cases "files req ''cover_image''")
  case None
  then show ?thesis by (simp add: add_book_fs_eq)
next
  case (Some f)
  show ?thesis
  proof (cases "fs (snd (add_book rt req s)) = fs s")
    case True
    then show ?thesis by simp
  next
    case False
    with Some have "secure_filename (normalize_nfkd rt) (filename f) \<noteq> [] \<and>
        fs (snd (add_book rt req s)) =
          (fs s)(UPLOAD_FOLDER @ ''/'' @ secure_filename (normalize_nfkd rt) (filename f)
                   \<mapsto> content f)"
      by (simp add: add_book_fs_eq split: if_splits)
    then show ?thesis by (intro disjI2 exI [of _ f])
  qed
qed

lemma edit_book_fs:
  "fs (snd (edit_book rt i req s)) = fs s \<or>
   (\<exists>f::upload. secure_filename (normalize_nfkd rt) (filename f) \<noteq> [] \<and>
        fs (snd (edit_book rt i req s)) =
          (fs s)(UPLOAD_FOLDER @ ''/'' @ secure_filename (normalize_nfkd rt) (filename f)
                   \<mapsto> content f))"
proof (cases "files req ''cover_image''")
  case None
  then show ?thesis by (simp add: edit_book_fs_eq)
next
  case (Some f)
  show ?thesis
  proof (cases "fs (snd (edit_book rt i req s)) = fs s")
    case True
    then show ?thesis by simp
  next
    case False
    with Some have "secure_filename (normalize_nfkd rt) (filename f) \<noteq> [] \<and>
        fs (snd (edit_book rt i req s)) =
          (fs s)(UPLOAD_FOLDER @ ''/'' @ secure_filename (normalize_nfkd rt) (filename f)
                   \<mapsto> content f)"
      by (simp add: edit_book_fs_eq split: if_splits)
    then show ?thesis by (intro disjI2 exI [of _ f])
  qed
qed

lemma secure_filename_component:
  assumes "secure_filename nfkd x \<noteq> []"
  shows "CHR ''/'' \<notin> set (secure_filename nfkd x) \<and> secure_filename nfkd x \<noteq> ''.'' \<and>
         secure_filename nfkd x \<noteq> ''..'' \<and> hd (secure_filename nfkd x) \<noteq> CHR ''.'' \<and>
         last (secure_filename nfkd x) \<noteq> CHR ''.''"
proof -
  have h: "hd (secure_filename nfkd x) \<noteq> CHR ''.''"
    using secure_filename_hd [OF assms] by (auto simp: dot_or_underscore_def)
  have l: "last (secure_filename nfkd x) \<noteq> CHR ''.''"
    using secure_filename_last [OF assms] by (auto simp: dot_or_underscore_def)
  from h have "secure_filename nfkd x \<noteq> ''.''" "secure_filename nfkd x \<noteq> ''..''" by auto
  then show ?thesis using h l secure_filename_no_slash by blast
qed

lemma changed_path_in_folder:
  assumes "disk' = disk \<or>
     (\<exists>f::upload. secure_filename nfkd (filename f) \<noteq> [] \<and>
        disk' = disk(UPLOAD_FOLDER @ ''/'' @ secure_filename nfkd (filename f) \<mapsto> content f))"
    and "disk' p \<noteq> disk p"
  shows "\<exists>name. p = UPLOAD_FOLDER @ ''/'' @ name \<and> name \<noteq> [] \<and> CHR ''/'' \<notin> set name \<and>
           name \<noteq> ''.'' \<and> name \<noteq> ''..''"
proof -
  from assms(2) have "disk' \<noteq> disk" by auto
  with assms(1) have "\<exists>f::upload. secure_filename nfkd (filename f) \<noteq> [] \<and>
        disk' = disk(UPLOAD_FOLDER @ ''/'' @ secure_filename nfkd (filename f) \<mapsto> content f)"
    by simp
  then obtain f :: upload where fd: "secure_filename nfkd (filename f) \<noteq> [] \<and>
        disk' = disk(UPLOAD_FOLDER @ ''/'' @ secure_filename nfkd (filename f) \<mapsto> content f)" ..
  then have ne: "secure_filename nfkd (filename f) \<noteq> []"
    and d: "disk' = disk(UPLOAD_FOLDER @ ''/'' @ secure_filename nfkd (filename f) \<mapsto> content f)"
    by simp_all
  from d assms(2) have "p = UPLOAD_FOLDER @ ''/'' @ secure_filename nfkd (filename f)"
    by (auto split: if_splits)
  then show ?thesis using secure_filename_component [OF ne] ne by blast
qed

section \<open>Update: what is overwritten\<close>

text \<open>
  Claim C1, as stated, fails for an update whose year is an integer that the database
  cannot hold: submitted for the stored book 1 without a file, with the title
  \<open>Dune Messiah\<close> and the year \<open>2 ^ 63\<close>, the edit form ends with \<open>OverflowError\<close> and the
  record keeps the title, the year and every other value it had.
\<close>

theorem update_refused_for_year:
  "get_or_404 (db one_book) 1 = Inr dune \<and>
   files (post_year ''9223372036854775808'') ''cover_image'' = None \<and>
   form (post_year ''9223372036854775808'') ''title'' = Some ''Dune Messiah'' \<and>
   form (post_year ''9223372036854775808'') ''year'' = Some ''9223372036854775808'' \<and>
   int_of_str sample_runtime ''9223372036854775808'' = Some 9223372036854775808 \<and>
   edit_book sample_runtime 1 (post_year ''9223372036854775808'') one_book =
     (Inl OverflowError, one_book) \<and>
   title dune = ''Dune'' \<and> year dune = 1965"
  by (simp add: get_1_one_book edit_book_def post_year_def load_form_data_def
        MAX_CONTENT_LENGTH_def sample_accepts read_scalars_def form_item_def dune_form_def
        sample_int_big edit_book_cover_def session_update_commit_def not_sqlite_integer_big)
    (simp add: dune_def)

text \<open>
  Claim C1, amended. For a stored key and a submission of the edit form that the framework
  accepts (body within the size limit and the framework's own limits), with the four
  scalars supplied and a year that \<open>int\<close> accepts and that fits a signed 64-bit integer:
  without a file under \<open>cover_image\<close>, or with a file whose name is empty, the record read
  back afterwards has the cover reference it had before and the supplied title, author,
  year and description, and the disk is unchanged; with a file that the resolver stored
  under the reference \<open>X\<close>, the record read back has the supplied scalars and the cover
  reference \<open>X\<close>.
\<close>

theorem update_partial_overwrite:
  assumes "get_or_404 (db s) i = Inr b"
    and "rq_method req = POST" and "content_length req \<le> MAX_CONTENT_LENGTH"
    and "\<not> body_refused rt req"
    and "form req ''title'' = Some t" and "form req ''author'' = Some a"
    and "form req ''year'' = Some ys" and "int_of_str rt ys = Some y"
    and "form req ''description'' = Some d"
    and "sqlite_integer y"
  shows "((files req ''cover_image'' = None \<or>
           (\<exists>f. files req ''cover_image'' = Some f \<and> filename f = [])) \<longrightarrow>
            fst (edit_book rt i req s) = Inr (Redirect_book_detail i) \<and>
            fs (snd (edit_book rt i req s)) = fs s \<and>
            (\<exists>b'. get_or_404 (db (snd (edit_book rt i req s))) i = Inr b' \<and>
                  title b' = t \<and> author b' = a \<and> year b' = y \<and> description b' = d \<and>
                  cover_image b' = cover_image b \<and> book_id b' = i)) \<and>
         (files req ''cover_image'' = Some f \<and> filename f \<noteq> [] \<and>
          store_upload rt f (fs s) = Inr (disk', X) \<longrightarrow>
            fst (edit_book rt i req s) = Inr (Redirect_book_detail i) \<and>
            X = ''images/uploads/'' @ secure_filename (normalize_nfkd rt) (filename f) \<and>
            (\<exists>b'. get_or_404 (db (snd (edit_book rt i req s))) i = Inr b' \<and>
                  title b' = t \<and> author b' = a \<and> year b' = y \<and> description b' = d \<and>
                  cover_image b' = X \<and> book_id b' = i))"
proof (intro conjI impI)
  have id: "book_id b = i" using assms(1) get_or_404_Inr by blast
  have rs: "read_scalars rt req = Inr (t, a, y, d)" using read_scalars_ok [OF assms(5-9)] .
  have lf: "load_form_data rt req = Inr ()" using load_form_data_ok [OF assms(3,4)] .
  let ?b1 = "b\<lparr>title := t, author := a, year := y, description := d\<rparr>"
  let ?upd = "\<lambda>b'. map (\<lambda>r. if book_id r = book_id b' then b' else r) (db s)"
  {
    assume nf: "files req ''cover_image'' = None \<or>
           (\<exists>f. files req ''cover_image'' = Some f \<and> filename f = [])"
    then have c: "edit_book_cover rt req ?b1 (fs s) = Inr (fs s, ?b1)"
      by (auto simp: edit_book_cover_def)
    have res: "edit_book rt i req s =
        (Inr (Redirect_book_detail i), \<lparr>db = ?upd ?b1, fs = fs s\<rparr>)"
      using assms(1,2,10) lf rs c id by (simp add: edit_book_def session_update_commit_def)
    from res show "fst (edit_book rt i req s) = Inr (Redirect_book_detail i)" by simp
    from res show "fs (snd (edit_book rt i req s)) = fs s" by simp
    have "get_or_404 (?upd ?b1) i = Inr ?b1"
      using update_rows_get [OF assms(1), of ?b1] id by simp
    with res show "\<exists>b'. get_or_404 (db (snd (edit_book rt i req s))) i = Inr b' \<and>
                  title b' = t \<and> author b' = a \<and> year b' = y \<and> description b' = d \<and>
                  cover_image b' = cover_image b \<and> book_id b' = i"
      using id by simp
  }
  {
    assume up: "files req ''cover_image'' = Some f \<and> filename f \<noteq> [] \<and>
          store_upload rt f (fs s) = Inr (disk', X)"
    let ?b2 = "?b1\<lparr>cover_image := X\<rparr>"
    from up have c: "edit_book_cover rt req ?b1 (fs s) = Inr (disk', ?b2)"
      by (simp add: edit_book_cover_def)
    have res: "edit_book rt i req s =
        (Inr (Redirect_book_detail i), \<lparr>db = ?upd ?b2, fs = disk'\<rparr>)"
      using assms(1,2,10) lf rs c id by (simp add: edit_book_def session_update_commit_def)
    from res show "fst (edit_book rt i req s) = Inr (Redirect_book_detail i)" by simp
    from up show "X = ''images/uploads/'' @ secure_filename (normalize_nfkd rt) (filename f)"
      by (auto simp: store_upload_eq split: if_splits)
    have "get_or_404 (?upd ?b2) i = Inr ?b2"
      using update_rows_get [OF assms(1), of ?b2] id by simp
    with res show "\<exists>b'. get_or_404 (db (snd (edit_book rt i req s))) i = Inr b' \<and>
                  title b' = t \<and> author b' = a \<and> year b' = y \<and> description b' = d \<and>
                  cover_image b' = X \<and> book_id b' = i"
      using id by simp
  }
qed

theorem update_partial_overwrite_witness:
  "get_or_404 (db one_book) 1 = Inr dune \<and> rq_method (post_year ''1965'') = POST \<and>
   content_length (post_year ''1965'') \<le> MAX_CONTENT_LENGTH \<and>
   \<not> body_refused sample_runtime (post_year ''1965'') \<and>
   int_of_str sample_runtime ''1965'' = Some 1965 \<and> sqlite_integer 1965 \<and>
   files (post_year ''1965'') ''cover_image'' = None \<and>
   fst (edit_book sample_runtime 1 (post_year ''1965'') one_book) = Inr (Redirect_book_detail 1) \<and>
   get_or_404 (db (snd (edit_book sample_runtime 1 (post_year ''1965'') one_book))) 1 =
     Inr (dune\<lparr>title := ''Dune Messiah''\<rparr>) \<and>
   files (post_with ''dune.jpg'' ''1966'') ''cover_image''
     = Some \<lparr>filename = ''dune.jpg'', content = ''JFIF''\<rparr> \<and>
   store_upload sample_runtime \<lparr>filename = ''dune.jpg'', content = ''JFIF''\<rparr> (fs one_book) =
     Inr ((fs one_book)(''static/images/uploads/dune.jpg'' \<mapsto> ''JFIF''),
          ''images/uploads/dune.jpg'') \<and>
   get_or_404 (db (snd (edit_book sample_runtime 1 (post_with ''dune.jpg'' ''1966'') one_book))) 1 =
     Inr (dune\<lparr>year := 1966, cover_image := ''images/uploads/dune.jpg''\<rparr>)"
proof -
  let ?r1 = "post_year ''1965''"
  let ?r2 = "post_with ''dune.jpg'' ''1966''"
  let ?f = "\<lparr>filename = ''dune.jpg'', content = ''JFIF''\<rparr>"
  note g = get_1_one_book
  have m1: "rq_method ?r1 = POST" by (simp add: post_year_def)
  have l1: "content_length ?r1 \<le> MAX_CONTENT_LENGTH"
    by (simp add: post_year_def MAX_CONTENT_LENGTH_def)
  have t1: "form ?r1 ''title'' = Some ''Dune Messiah''" by (simp add: post_year_def)
  have a1: "form ?r1 ''author'' = Some ''Frank Herbert''" by (simp add: post_year_def dune_form_def)
  have y1: "form ?r1 ''year'' = Some ''1965''" by (simp add: post_year_def)
  have d1: "form ?r1 ''description'' = Some ''desc''" by (simp add: post_year_def dune_form_def)
  have n1: "files ?r1 ''cover_image'' = None" by (simp add: post_year_def)
  note A = update_partial_overwrite [OF g m1 l1 sample_accepts t1 a1 y1 sample_int_1965 d1
      sqlite_integer_1965, THEN conjunct1, rule_format, OF disjI1 [OF n1]]
  have m2: "rq_method ?r2 = POST" by (simp add: post_with_def)
  have l2: "content_length ?r2 \<le> MAX_CONTENT_LENGTH"
    by (simp add: post_with_def MAX_CONTENT_LENGTH_def)
  have t2: "form ?r2 ''title'' = Some ''Dune''" by (simp add: post_with_def dune_form_def)
  have a2: "form ?r2 ''author'' = Some ''Frank Herbert''" by (simp add: post_with_def dune_form_def)
  have y2: "form ?r2 ''year'' = Some ''1966''" by (simp add: post_with_def)
  have d2: "form ?r2 ''description'' = Some ''desc''" by (simp add: post_with_def dune_form_def)
  have f2: "files ?r2 ''cover_image'' = Some ?f" by (simp add: post_with_def)
  have ne: "filename ?f \<noteq> []" by simp
  have st: "store_upload sample_runtime ?f (fs one_book) =
     Inr ((fs one_book)(''static/images/uploads/dune.jpg'' \<mapsto> ''JFIF''),
          ''images/uploads/dune.jpg'')"
    by (rule store_upload_dune)
  note B = update_partial_overwrite [OF g m2 l2 sample_accepts t2 a2 y2 sample_int_1966 d2
      sqlite_integer_1966, where f = ?f
      and disk' = "(fs one_book)(''static/images/uploads/dune.jpg'' \<mapsto> ''JFIF'')"
      and X = "''images/uploads/dune.jpg''",
      THEN conjunct2, rule_format, OF conjI [OF f2 conjI [OF ne st]]]
  from A obtain b1 where b1: "get_or_404 (db (snd (edit_book sample_runtime 1 ?r1 one_book))) 1 = Inr b1"
    "title b1 = ''Dune Messiah''" "author b1 = ''Frank Herbert''" "year b1 = 1965"
    "description b1 = ''desc''" "cover_image b1 = cover_image dune" "book_id b1 = 1"
    by blast
  then have e1: "b1 = dune\<lparr>title := ''Dune Messiah''\<rparr>"
    by (cases b1) (simp add: dune_def)
  from B obtain b2 where b2: "get_or_404 (db (snd (edit_book sample_runtime 1 ?r2 one_book))) 1 = Inr b2"
    "title b2 = ''Dune''" "author b2 = ''Frank Herbert''" "year b2 = 1966"
    "description b2 = ''desc''" "cover_image b2 = ''images/uploads/dune.jpg''" "book_id b2 = 1"
    by blast
  then have e2: "b2 = dune\<lparr>year := 1966, cover_image := ''images/uploads/dune.jpg''\<rparr>"
    by (cases b2) (simp add: dune_def)
  from A have r1: "fst (edit_book sample_runtime 1 ?r1 one_book) = Inr (Redirect_book_detail 1)"
    by blast
  show ?thesis
    using g m1 l1 sample_accepts [of ?r1] sample_int_1965 sqlite_integer_1965 n1 r1 b1(1) e1
      f2 st b2(1) e2
    by simp
qed

section \<open>Where uploads are written\<close>

text \<open>
  Claim C2, as stated, fails in its second half: the stored reference can contain two
  dots in a row. A file uploaded under the name \<open>a..b\<close> keeps that name, and the book is
  stored with the reference \<open>images/uploads/a..b\<close>.
\<close>

theorem upload_reference_with_two_dots:
  "map cover_image (db (snd (add_book sample_runtime (post_with ''a..b'' ''1965'') no_books))) =
     [''images/uploads/a..b''] \<and>
   sublist ''..'' ''images/uploads/a..b''"
proof
  have s: "store_upload sample_runtime \<lparr>filename = ''a..b'', content = ''JFIF''\<rparr> Map.empty =
      Inr ([''static/images/uploads/a..b'' \<mapsto> ''JFIF''], ''images/uploads/a..b'')"
    by (simp add: store_upload_eq sample_nfkd sample_writes secure_filename_a_b UPLOAD_FOLDER_def)
  show "map cover_image (db (snd (add_book sample_runtime (post_with ''a..b'' ''1965'') no_books))) =
     [''images/uploads/a..b'']"
    by (simp add: add_book_def post_with_def no_books_def load_form_data_def
          MAX_CONTENT_LENGTH_def sample_accepts add_book_cover_def s new_book_def
          read_scalars_def form_item_def dune_form_def sample_int_1965 session_add_commit_def
          sqlite_integer_1965 with_id_def)
  have "''images/uploads/a..b'' = ''images/uploads/a'' @ ''..'' @ ''b''" by simp
  then show "sublist ''..'' ''images/uploads/a..b''" unfolding sublist_def by blast
qed

text \<open>
  Claim C2, amended. For every uploaded file, whatever its original name, the resolver
  writes only to a path made of the uploads directory, one separator and a non-empty file
  name without a separator that is neither \<open>.\<close> nor \<open>..\<close>, so never outside the
  directory; this holds for every path whose content the add or the edit handler changes.
  The reference it stores is \<open>images/uploads/\<close> followed by that name, which consists of
  letters, digits, \<open>_\<close>, \<open>.\<close> and \<open>-\<close> only and neither begins nor ends with a dot, so
  no component of the reference is \<open>..\<close>.
\<close>

theorem upload_written_inside_folder:
  "(store_upload rt f disk = Inr (disk', ref) \<longrightarrow>
      (\<exists>name. name \<noteq> [] \<and> (\<forall>c \<in> set name. safe_char c) \<and> CHR ''/'' \<notin> set name \<and>
           hd name \<noteq> CHR ''.'' \<and> last name \<noteq> CHR ''.'' \<and>
           disk' = disk(UPLOAD_FOLDER @ ''/'' @ name \<mapsto> content f) \<and>
           ref = ''images/uploads/'' @ name)) \<and>
   (fs (snd (add_book rt req s)) p \<noteq> fs s p \<longrightarrow>
      (\<exists>name. p = UPLOAD_FOLDER @ ''/'' @ name \<and> name \<noteq> [] \<and> CHR ''/'' \<notin> set name \<and>
           name \<noteq> ''.'' \<and> name \<noteq> ''..'')) \<and>
   (fs (snd (edit_book rt i req s)) p \<noteq> fs s p \<longrightarrow>
      (\<exists>name. p = UPLOAD_FOLDER @ ''/'' @ name \<and> name \<noteq> [] \<and> CHR ''/'' \<notin> set name \<and>
           name \<noteq> ''.'' \<and> name \<noteq> ''..''))"
proof (intro conjI impI)
  assume st: "store_upload rt f disk = Inr (disk', ref)"
  let ?n = "secure_filename (normalize_nfkd rt) (filename f)"
  from st have ne: "?n \<noteq> []" by (auto simp: store_upload_eq split: if_splits)
  with st have "disk' = disk(UPLOAD_FOLDER @ ''/'' @ ?n \<mapsto> content f)"
    and "ref = ''images/uploads/'' @ ?n"
    by (auto simp: store_upload_eq split: if_splits)
  moreover have "\<forall>c \<in> set ?n. safe_char c" using secure_filename_chars by blast
  ultimately show "\<exists>name. name \<noteq> [] \<and> (\<forall>c \<in> set name. safe_char c) \<and> CHR ''/'' \<notin> set name \<and>
           hd name \<noteq> CHR ''.'' \<and> last name \<noteq> CHR ''.'' \<and>
           disk' = disk(UPLOAD_FOLDER @ ''/'' @ name \<mapsto> content f) \<and>
           ref = ''images/uploads/'' @ name"
    using ne secure_filename_component [OF ne] by blast
next
  assume "fs (snd (add_book rt req s)) p \<noteq> fs s p"
  with add_book_fs [of rt req s]
  show "\<exists>name. p = UPLOAD_FOLDER @ ''/'' @ name \<and> name \<noteq> [] \<and> CHR ''/'' \<notin> set name \<and>
           name \<noteq> ''.'' \<and> name \<noteq> ''..''"
    by (rule changed_path_in_folder)
next
  assume "fs (snd (edit_book rt i req s)) p \<noteq> fs s p"
  with edit_book_fs [of rt i req s]
  show "\<exists>name. p = UPLOAD_FOLDER @ ''/'' @ name \<and> name \<noteq> [] \<and> CHR ''/'' \<notin> set name \<and>
           name \<noteq> ''.'' \<and> name \<noteq> ''..''"
    by (rule changed_path_in_folder)
qed

theorem upload_written_inside_folder_witness:
  "store_upload sample_runtime \<lparr>filename = ''../../etc/passwd'', content = ''JFIF''\<rparr> Map.empty =
     Inr ([''static/images/uploads/etc_passwd'' \<mapsto> ''JFIF''], ''images/uploads/etc_passwd'') \<and>
   (\<exists>name. name \<noteq> [] \<and> (\<forall>c \<in> set name. safe_char c) \<and> CHR ''/'' \<notin> set name \<and>
        hd name \<noteq> CHR ''.'' \<and> last name \<noteq> CHR ''.'' \<and>
        [''static/images/uploads/etc_passwd'' \<mapsto> ''JFIF''] =
          Map.empty(UPLOAD_FOLDER @ ''/'' @ name \<mapsto> ''JFIF'') \<and>
        ''images/uploads/etc_passwd'' = ''images/uploads/'' @ name) \<and>
   fs (snd (add_book sample_runtime (post_with ''../../etc/passwd'' ''1965'') no_books))
      ''static/images/uploads/etc_passwd'' \<noteq> fs no_books ''static/images/uploads/etc_passwd'' \<and>
   fs (snd (edit_book sample_runtime 1 (post_with ''../../etc/passwd'' ''1965'') one_book))
      ''static/images/uploads/etc_passwd'' \<noteq> fs one_book ''static/images/uploads/etc_passwd'' \<and>
   (\<exists>name. ''static/images/uploads/etc_passwd'' = UPLOAD_FOLDER @ ''/'' @ name \<and> name \<noteq> [] \<and>
        CHR ''/'' \<notin> set name \<and> name \<noteq> ''.'' \<and> name \<noteq> ''..'')"
proof -
  let ?f = "\<lparr>filename = ''../../etc/passwd'', content = ''JFIF''\<rparr>"
  let ?req = "post_with ''../../etc/passwd'' ''1965''"
  let ?p = "''static/images/uploads/etc_passwd''"
  have st: "store_upload sample_runtime ?f Map.empty = Inr ([?p \<mapsto> ''JFIF''], ''images/uploads/etc_passwd'')"
    by (simp add: store_upload_passwd)
  have a: "fs (snd (add_book sample_runtime ?req no_books)) ?p \<noteq> fs no_books ?p"
    by (simp add: add_book_fs_eq post_with_def sample_nfkd sample_accepts sample_writes
          secure_filename_passwd MAX_CONTENT_LENGTH_def UPLOAD_FOLDER_def no_books_def)
  note g = get_1_one_book
  have r: "read_scalars sample_runtime ?req = Inr (''Dune'', ''Frank Herbert'', 1965, ''desc'')"
    by (simp add: read_scalars_def form_item_def post_with_def dune_form_def sample_int_1965)
  have e: "fs (snd (edit_book sample_runtime 1 ?req one_book)) ?p \<noteq> fs one_book ?p"
    using g r
    by (simp add: edit_book_fs_eq post_with_def sample_nfkd sample_accepts sample_writes
          secure_filename_passwd MAX_CONTENT_LENGTH_def UPLOAD_FOLDER_def one_book_def)
  note t = upload_written_inside_folder [where rt = sample_runtime and f = ?f and disk = Map.empty
      and disk' = "[?p \<mapsto> ''JFIF'']" and ref = "''images/uploads/etc_passwd''"
      and req = ?req and s = no_books and p = ?p]
  from t st have c1: "\<exists>name. name \<noteq> [] \<and> (\<forall>c \<in> set name. safe_char c) \<and> CHR ''/'' \<notin> set name \<and>
        hd name \<noteq> CHR ''.'' \<and> last name \<noteq> CHR ''.'' \<and>
        [''static/images/uploads/etc_passwd'' \<mapsto> ''JFIF''] =
          Map.empty(UPLOAD_FOLDER @ ''/'' @ name \<mapsto> ''JFIF'') \<and>
        ''images/uploads/etc_passwd'' = ''images/uploads/'' @ name"
    by simp
  from t a have c2: "\<exists>name. ?p = UPLOAD_FOLDER @ ''/'' @ name \<and> name \<noteq> [] \<and>
        CHR ''/'' \<notin> set name \<and> name \<noteq> ''.'' \<and> name \<noteq> ''..''"
    by simp
  note t' = upload_written_inside_folder [where rt = sample_runtime and i = 1 and req = ?req
      and s = one_book and p = ?p]
  from t' e have "\<exists>name. ?p = UPLOAD_FOLDER @ ''/'' @ name \<and> name \<noteq> [] \<and>
        CHR ''/'' \<notin> set name \<and> name \<noteq> ''.'' \<and> name \<noteq> ''..''"
    by simp
  show ?thesis by (intro conjI st c1 a e c2)
qed

section \<open>Create and read back\<close>

text \<open>
  Claim C3, as stated, fails for a well-formed input whose integer year the database
  cannot hold: the add form with title, author, description and the year \<open>2 ^ 63\<close>, and
  no file, ends with \<open>OverflowError\<close>; no record is created, so none can be read back.
\<close>

theorem create_refused_for_year:
  "rq_method (post_year ''9223372036854775808'') = POST \<and>
   form (post_year ''9223372036854775808'') ''title'' = Some ''Dune Messiah'' \<and>
   form (post_year ''9223372036854775808'') ''author'' = Some ''Frank Herbert'' \<and>
   form (post_year ''9223372036854775808'') ''year'' = Some ''9223372036854775808'' \<and>
   int_of_str sample_runtime ''9223372036854775808'' = Some 9223372036854775808 \<and>
   form (post_year ''9223372036854775808'') ''description'' = Some ''desc'' \<and>
   add_book_cover sample_runtime (post_year ''9223372036854775808'') (fs no_books) =
     Inr (fs no_books, ''images/default_cover.jpg'') \<and>
   add_book sample_runtime (post_year ''9223372036854775808'') no_books =
     (Inl OverflowError, no_books)"
  by (simp add: add_book_def post_year_def load_form_data_def MAX_CONTENT_LENGTH_def
        sample_accepts add_book_cover_def default_cover_def new_book_def read_scalars_def
        form_item_def dune_form_def sample_int_big session_add_commit_def
        not_sqlite_integer_big)

text \<open>
  Claim C3, amended. For every well-formed create input that the framework accepts (title,
  author, a year that is an integer within the signed 64-bit range, description, resolved
  cover reference), in a table whose next key is within that range, the submission appends
  one row, and reading back the book by the id assigned at creation returns a record
  whose fields all equal the values passed to create.
\<close>

theorem create_read_roundtrip:
  assumes "rq_method req = POST" and "content_length req \<le> MAX_CONTENT_LENGTH"
    and "\<not> body_refused rt req"
    and "add_book_cover rt req (fs s) = Inr (disk', c)"
    and "form req ''title'' = Some t" and "form req ''author'' = Some a"
    and "form req ''year'' = Some ys" and "int_of_str rt ys = Some y"
    and "form req ''description'' = Some d"
    and "sqlite_integer y" and "sqlite_integer (next_rowid (db s))"
  shows "\<exists>b. fst (add_book rt req s) = Inr Redirect_index \<and>
             db (snd (add_book rt req s)) = db s @ [b] \<and>
             book_detail (book_id b) (snd (add_book rt req s)) = Inr (Render_book_detail b) \<and>
             title b = t \<and> author b = a \<and> year b = y \<and> description b = d \<and>
             cover_image b = c"
proof -
  let ?f = "\<lparr>title = t, author = a, year = y, description = d, cover_image = c\<rparr>"
  let ?b = "with_id ?f (next_rowid (db s))"
  have nb: "new_book rt req c = Inr ?f"
    using read_scalars_ok [OF assms(5-9)] by (simp add: new_book_def)
  have res: "add_book rt req s =
      (Inr Redirect_index, \<lparr>db = db s @ [?b], fs = disk'\<rparr>)"
    using assms(1,4,10) load_form_data_ok [OF assms(2,3)] nb
    by (simp add: add_book_def session_add_commit_def)
  have id: "book_id ?b = next_rowid (db s)" by (simp add: with_id_def)
  have "query_get (db s @ [?b]) (book_id ?b) = Some ?b"
    using query_get_append_fresh [OF next_rowid_fresh, of ?b "db s"] id by simp
  then have "book_detail (book_id ?b) (snd (add_book rt req s)) = Inr (Render_book_detail ?b)"
    using res id assms(11) by (simp add: book_detail_def get_or_404_def)
  moreover have "title ?b = t \<and> author ?b = a \<and> year ?b = y \<and> description ?b = d \<and>
      cover_image ?b = c"
    by (simp add: with_id_def)
  ultimately show ?thesis using res by auto
qed

theorem create_read_roundtrip_witness:
  "rq_method post_dune = POST \<and> content_length post_dune \<le> MAX_CONTENT_LENGTH \<and>
   \<not> body_refused sample_runtime post_dune \<and>
   add_book_cover sample_runtime post_dune (fs no_books) =
     Inr (Map.empty, ''images/default_cover.jpg'') \<and>
   form post_dune ''title'' = Some ''Dune'' \<and> form post_dune ''author'' = Some ''Frank Herbert'' \<and>
   form post_dune ''year'' = Some ''1965'' \<and> int_of_str sample_runtime ''1965'' = Some 1965 \<and>
   form post_dune ''description'' = Some ''desc'' \<and>
   sqlite_integer 1965 \<and> sqlite_integer (next_rowid (db no_books)) \<and>
   (\<exists>b. fst (add_book sample_runtime post_dune no_books) = Inr Redirect_index \<and>
        db (snd (add_book sample_runtime post_dune no_books)) = db no_books @ [b] \<and>
        book_detail (book_id b) (snd (add_book sample_runtime post_dune no_books)) =
          Inr (Render_book_detail b) \<and>
        title b = ''Dune'' \<and> author b = ''Frank Herbert'' \<and> year b = 1965 \<and>
        description b = ''desc'' \<and> cover_image b = ''images/default_cover.jpg'')"
proof -
  have h1: "rq_method post_dune = POST" by (simp add: post_dune_def)
  have h2: "content_length post_dune \<le> MAX_CONTENT_LENGTH"
    by (simp add: post_dune_def MAX_CONTENT_LENGTH_def)
  have h3: "add_book_cover sample_runtime post_dune (fs no_books) =
      Inr (Map.empty, ''images/default_cover.jpg'')"
    by (simp add: add_book_cover_def post_dune_def no_books_def default_cover_def)
  have h4: "form post_dune ''title'' = Some ''Dune''" by (simp add: post_dune_def dune_form_def)
  have h5: "form post_dune ''author'' = Some ''Frank Herbert''"
    by (simp add: post_dune_def dune_form_def)
  have h6: "form post_dune ''year'' = Some ''1965''" by (simp add: post_dune_def dune_form_def)
  have h8: "form post_dune ''description'' = Some ''desc''"
    by (simp add: post_dune_def dune_form_def)
  have h9: "sqlite_integer (next_rowid (db no_books))"
    by (simp add: no_books_def next_rowid_def sqlite_integer_def)
  note c = create_read_roundtrip [OF h1 h2 sample_accepts h3 h4 h5 h6 sample_int_1965 h8
      sqlite_integer_1965 h9]
  show ?thesis
    by (intro conjI h1 h2 sample_accepts h3 h4 h5 h6 sample_int_1965 h8 sqlite_integer_1965 h9 c)
qed

section \<open>The default cover\<close>

text \<open>
  Claim C4. When the add form is submitted without a file under \<open>cover_image\<close>, or with a
  file whose name is empty, nothing on disk changes and a record that is created has the
  cover reference \<open>images/default_cover.jpg\<close>; the record is created whenever the
  framework accepts the body, the scalars can be read and the year fits a signed 64-bit
  integer.
\<close>

theorem default_cover_without_upload:
  assumes "rq_method req = POST"
    and "files req ''cover_image'' = None \<or>
         (\<exists>f. files req ''cover_image'' = Some f \<and> filename f = [])"
  shows "fs (snd (add_book rt req s)) = fs s \<and>
         (fst (add_book rt req s) = Inr Redirect_index \<longrightarrow>
            (\<exists>b. db (snd (add_book rt req s)) = db s @ [b] \<and>
                 cover_image b = ''images/default_cover.jpg'')) \<and>
         (content_length req \<le> MAX_CONTENT_LENGTH \<and> \<not> body_refused rt req \<and>
          (\<exists>t a y d. read_scalars rt req = Inr (t, a, y, d) \<and> sqlite_integer y) \<longrightarrow>
            fst (add_book rt req s) = Inr Redirect_index)"
proof -
  have c: "add_book_cover rt req (fs s) = Inr (fs s, ''images/default_cover.jpg'')"
    using assms(2) by (auto simp: add_book_cover_def default_cover_def)
  show ?thesis
    using assms(1) c
    by (auto simp: add_book_def new_book_def session_add_commit_def with_id_def
          load_form_data_def split: sum.splits prod.splits if_splits)
qed

theorem default_cover_without_upload_witness:
  "rq_method post_dune = POST \<and> files post_dune ''cover_image'' = None \<and>
   content_length post_dune \<le> MAX_CONTENT_LENGTH \<and> \<not> body_refused sample_runtime post_dune \<and>
   read_scalars sample_runtime post_dune = Inr (''Dune'', ''Frank Herbert'', 1965, ''desc'') \<and>
   sqlite_integer 1965 \<and>
   fs (snd (add_book sample_runtime post_dune no_books)) = fs no_books \<and>
   fst (add_book sample_runtime post_dune no_books) = Inr Redirect_index \<and>
   (\<exists>b. db (snd (add_book sample_runtime post_dune no_books)) = db no_books @ [b] \<and>
        cover_image b = ''images/default_cover.jpg'')"
proof -
  have h1: "rq_method post_dune = POST" by (simp add: post_dune_def)
  have h2: "files post_dune ''cover_image'' = None" by (simp add: post_dune_def)
  have h3: "content_length post_dune \<le> MAX_CONTENT_LENGTH"
    by (simp add: post_dune_def MAX_CONTENT_LENGTH_def)
  have h4: "read_scalars sample_runtime post_dune = Inr (''Dune'', ''Frank Herbert'', 1965, ''desc'')"
    by (simp add: read_scalars_def form_item_def post_dune_def dune_form_def sample_int_1965)
  note t = default_cover_without_upload [OF h1 disjI1 [OF h2], of sample_runtime no_books]
  from t have f: "fs (snd (add_book sample_runtime post_dune no_books)) = fs no_books" by blast
  from t h3 h4 sample_accepts [of post_dune] sqlite_integer_1965
  have r: "fst (add_book sample_runtime post_dune no_books) = Inr Redirect_index" by blast
  from t r have b: "\<exists>b. db (snd (add_book sample_runtime post_dune no_books)) = db no_books @ [b] \<and>
        cover_image b = ''images/default_cover.jpg''" by blast
  show ?thesis by (intro conjI h1 h2 h3 sample_accepts h4 sqlite_integer_1965 f r b)
qed

section \<open>Unknown keys and deletion\<close>




section \<open>Validation of the scalars at creation\<close>

text \<open>
  Claim C6, as stated, fails in its last part: a create request with the four scalars
  present and a year that is an integer does not always succeed. Submitted together with a
  file of one byte more than the size limit, the form of the sample book is refused with
  \<open>RequestEntityTooLarge\<close> and no record is added.
\<close>

theorem wellformed_create_refused_for_size:
  "form post_big ''title'' = Some ''Dune'' \<and> form post_big ''author'' = Some ''Frank Herbert'' \<and>
   form post_big ''year'' = Some ''1965'' \<and> int_of_str sample_runtime ''1965'' = Some 1965 \<and>
   form post_big ''description'' = Some ''desc'' \<and>
   add_book sample_runtime post_big no_books = (Inl RequestEntityTooLarge, no_books)"
  by (simp add: post_big_def dune_form_def sample_int_1965 add_book_def load_form_data_def
        MAX_CONTENT_LENGTH_def)

text \<open>
  Claim C6, amended. A submission of the add form in which one of title, author, year,
  description is missing, or whose year \<open>int\<close> rejects, fails and leaves the table as it
  was; when the framework accepted the body and the cover reference was resolved, the
  failure is the missing-key error or the \<open>ValueError\<close>. With the four entries present, the
  year accepted by \<open>int\<close> and within the signed 64-bit range, the body accepted by the
  framework and the cover resolved to \<open>c\<close>, the submission succeeds and appends exactly
  the row made of these values.
\<close>

theorem create_validation:
  assumes "rq_method req = POST"
  shows "((form req ''title'' = None \<or> form req ''author'' = None \<or> form req ''year'' = None \<or>
           form req ''description'' = None \<or>
           (\<exists>ys. form req ''year'' = Some ys \<and> int_of_str rt ys = None)) \<longrightarrow>
            (\<exists>e. fst (add_book rt req s) = Inl e \<and>
                 (content_length req \<le> MAX_CONTENT_LENGTH \<and> \<not> body_refused rt req \<and>
                  (\<exists>r. add_book_cover rt req (fs s) = Inr r) \<longrightarrow>
                    (\<exists>k. e = BadRequestKeyError k) \<or> e = ValueError)) \<and>
            db (snd (add_book rt req s)) = db s) \<and>
         (form req ''title'' = Some t \<and> form req ''author'' = Some a \<and>
          form req ''year'' = Some ys \<and> int_of_str rt ys = Some y \<and> sqlite_integer y \<and>
          form req ''description'' = Some d \<and>
          content_length req \<le> MAX_CONTENT_LENGTH \<and> \<not> body_refused rt req \<and>
          add_book_cover rt req (fs s) = Inr (disk', c) \<longrightarrow>
            fst (add_book rt req s) = Inr Redirect_index \<and>
            db (snd (add_book rt req s)) =
              db s @ [\<lparr>title = t, author = a, year = y, description = d, cover_image = c,
                       book_id = next_rowid (db s)\<rparr>])"
proof (intro conjI impI)
  assume bad: "form req ''title'' = None \<or> form req ''author'' = None \<or>
     form req ''year'' = None \<or> form req ''description'' = None \<or>
     (\<exists>ys. form req ''year'' = Some ys \<and> int_of_str rt ys = None)"
  from read_scalars_bad [OF bad] obtain e0 where
    e0: "read_scalars rt req = Inl e0" "(\<exists>k. e0 = BadRequestKeyError k) \<or> e0 = ValueError"
    by blast
  then have nb: "\<And>cp. new_book rt req cp = Inl e0" by (simp add: new_book_def)
  have "\<exists>e. fst (add_book rt req s) = Inl e \<and>
          (content_length req \<le> MAX_CONTENT_LENGTH \<and> \<not> body_refused rt req \<and>
           (\<exists>r. add_book_cover rt req (fs s) = Inr r) \<longrightarrow>
            (\<exists>k. e = BadRequestKeyError k) \<or> e = ValueError)"
    using assms nb e0(2)
    by (auto simp: add_book_def load_form_data_def split: sum.splits prod.splits)
  then obtain e where e: "fst (add_book rt req s) = Inl e"
     and v: "content_length req \<le> MAX_CONTENT_LENGTH \<and> \<not> body_refused rt req \<and>
           (\<exists>r. add_book_cover rt req (fs s) = Inr r) \<longrightarrow>
            (\<exists>k. e = BadRequestKeyError k) \<or> e = ValueError"
    by blast
  from e v show "\<exists>e. fst (add_book rt req s) = Inl e \<and>
          (content_length req \<le> MAX_CONTENT_LENGTH \<and> \<not> body_refused rt req \<and>
           (\<exists>r. add_book_cover rt req (fs s) = Inr r) \<longrightarrow>
            (\<exists>k. e = BadRequestKeyError k) \<or> e = ValueError)"
    by blast
  from add_book_error_db [OF e] show "db (snd (add_book rt req s)) = db s" .
next
  assume ok: "form req ''title'' = Some t \<and> form req ''author'' = Some a \<and>
          form req ''year'' = Some ys \<and> int_of_str rt ys = Some y \<and> sqlite_integer y \<and>
          form req ''description'' = Some d \<and>
          content_length req \<le> MAX_CONTENT_LENGTH \<and> \<not> body_refused rt req \<and>
          add_book_cover rt req (fs s) = Inr (disk', c)"
  then have rs: "read_scalars rt req = Inr (t, a, y, d)" using read_scalars_ok by blast
  have res: "add_book rt req s =
      (Inr Redirect_index,
       \<lparr>db = db s @ [\<lparr>title = t, author = a, year = y, description = d, cover_image = c,
                       book_id = next_rowid (db s)\<rparr>], fs = disk'\<rparr>)"
    using assms ok rs
    by (simp add: add_book_def load_form_data_def new_book_def session_add_commit_def with_id_def)
  from res show "fst (add_book rt req s) = Inr Redirect_index" by simp
  from res show "db (snd (add_book rt req s)) =
              db s @ [\<lparr>title = t, author = a, year = y, description = d, cover_image = c,
                       book_id = next_rowid (db s)\<rparr>]" by simp
qed

theorem create_validation_witness:
  "rq_method (post_with ''dune.jpg'' ''abc'') = POST \<and>
   form (post_with ''dune.jpg'' ''abc'') ''year'' = Some ''abc'' \<and>
   int_of_str sample_runtime ''abc'' = None \<and>
   fst (add_book sample_runtime (post_with ''dune.jpg'' ''abc'') no_books) = Inl ValueError \<and>
   db (snd (add_book sample_runtime (post_with ''dune.jpg'' ''abc'') no_books)) = db no_books \<and>
   rq_method post_dune = POST \<and> int_of_str sample_runtime ''1965'' = Some 1965 \<and>
   sqlite_integer 1965 \<and> content_length post_dune \<le> MAX_CONTENT_LENGTH \<and>
   \<not> body_refused sample_runtime post_dune \<and>
   fst (add_book sample_runtime post_dune no_books) = Inr Redirect_index \<and>
   db (snd (add_book sample_runtime post_dune no_books)) =
     [\<lparr>title = ''Dune'', author = ''Frank Herbert'', year = 1965, description = ''desc'',
       cover_image = ''images/default_cover.jpg'', book_id = 1\<rparr>]"
proof -
  let ?bad = "post_with ''dune.jpg'' ''abc''"
  have b1: "rq_method ?bad = POST" by (simp add: post_with_def)
  have b2: "form ?bad ''year'' = Some ''abc''" by (simp add: post_with_def)
  have b3: "fst (add_book sample_runtime ?bad no_books) = Inl ValueError"
    by (simp add: add_book_def post_with_def no_books_def load_form_data_def
          MAX_CONTENT_LENGTH_def sample_accepts add_book_cover_def store_upload_dune
          new_book_def read_scalars_def form_item_def dune_form_def sample_int_abc)
  have h1: "rq_method post_dune = POST" by (simp add: post_dune_def)
  have h2: "content_length post_dune \<le> MAX_CONTENT_LENGTH"
    by (simp add: post_dune_def MAX_CONTENT_LENGTH_def)
  have h3: "add_book_cover sample_runtime post_dune (fs no_books) =
      Inr (Map.empty, ''images/default_cover.jpg'')"
    by (simp add: add_book_cover_def post_dune_def no_books_def default_cover_def)
  have h4: "form post_dune ''title'' = Some ''Dune''" by (simp add: post_dune_def dune_form_def)
  have h5: "form post_dune ''author'' = Some ''Frank Herbert''"
    by (simp add: post_dune_def dune_form_def)
  have h6: "form post_dune ''year'' = Some ''1965''" by (simp add: post_dune_def dune_form_def)
  have h8: "form post_dune ''description'' = Some ''desc''"
    by (simp add: post_dune_def dune_form_def)
  have n: "next_rowid (db no_books) = 1" "db no_books = []"
    by (simp_all add: next_rowid_def no_books_def)
  from create_validation [OF b1, of sample_runtime no_books] b2 sample_int_abc
  have "db (snd (add_book sample_runtime ?bad no_books)) = db no_books" by blast
  moreover
  from create_validation [OF h1, where t = "''Dune''" and a = "''Frank Herbert''"
      and ys = "''1965''" and y = 1965 and d = "''desc''" and rt = sample_runtime
      and s = no_books and disk' = Map.empty and c = "''images/default_cover.jpg''"]
    h2 h3 h4 h5 h6 h8 sample_int_1965 sqlite_integer_1965 sample_accepts [of post_dune]
  have "fst (add_book sample_runtime post_dune no_books) = Inr Redirect_index \<and>
   db (snd (add_book sample_runtime post_dune no_books)) =
     db no_books @ [\<lparr>title = ''Dune'', author = ''Frank Herbert'', year = 1965,
       description = ''desc'', cover_image = ''images/default_cover.jpg'',
       book_id = next_rowid (db no_books)\<rparr>]"
    by blast
  ultimately show ?thesis
    using b1 b2 b3 h1 h2 sample_int_abc sample_int_1965 sqlite_integer_1965
      sample_accepts [of post_dune] n
    by simp
qed

section \<open>Keys of new rows\<close>

text \<open>
  Claim C7, as stated, fails: a key that belonged to a deleted record is given out again.
  From the empty table, creating a book gives it the key 1; after deleting book 1 the next
  book created receives the key 1 once more, so the keys given out along the sequence
  create, delete, create are 1 and 1.
\<close>

theorem id_reused_after_delete:
  "db (run sample_runtime [Create post_dune] no_books) = [dune] \<and> book_id dune = 1 \<and>
   db (run sample_runtime [Create post_dune, Delete 1] no_books) = [] \<and>
   db (run sample_runtime [Create post_dune, Delete 1, Create post_dune] no_books) = [dune] \<and>
   assigned_ids sample_runtime [Create post_dune, Delete 1, Create post_dune] no_books = [1, 1] \<and>
   \<not> distinct (assigned_ids sample_runtime [Create post_dune, Delete 1, Create post_dune] no_books)"
  by (simp add: add_post_dune_no_books delete_1_one_book)
    (simp add: one_book_def no_books_def dune_def)

text \<open>
  Claim C7, amended. The key given to a new record is 1 in an empty table and otherwise
  the largest key in the table plus one; it differs from the key of every record in the
  table at that moment. An update changes no key and a delete adds no row; hence the keys
  of the stored records stay pairwise distinct along every sequence of create, update and
  delete requests. (A key that belonged to a deleted record can be given out again.)
\<close>

theorem ids_distinct_among_stored:
  "(distinct (map book_id (db s)) \<longrightarrow> distinct (map book_id (db (run rt ops s)))) \<and>
   (fst (add_book rt req s) = Inr Redirect_index \<longrightarrow>
      (\<exists>b. db (snd (add_book rt req s)) = db s @ [b] \<and>
           book_id b = (if db s = [] then 1 else Max (book_id ` set (db s)) + 1) \<and>
           book_id b \<notin> book_id ` set (db s))) \<and>
   map book_id (db (snd (edit_book rt i req s))) = map book_id (db s) \<and>
   set (db (snd (delete_book i s))) \<subseteq> set (db s)"
proof (intro conjI impI)
  assume "distinct (map book_id (db s))"
  then show "distinct (map book_id (db (run rt ops s)))" by (rule run_distinct)
next
  assume "fst (add_book rt req s) = Inr Redirect_index"
  from add_book_created [OF this] obtain f where
    "db (snd (add_book rt req s)) = db s @ [with_id f (next_rowid (db s))]" by blast
  then show "\<exists>b. db (snd (add_book rt req s)) = db s @ [b] \<and>
           book_id b = (if db s = [] then 1 else Max (book_id ` set (db s)) + 1) \<and>
           book_id b \<notin> book_id ` set (db s)"
    using next_rowid_fresh [of "db s"] next_rowid_value [of "db s"]
    by (simp add: with_id_book_id)
next
  show "map book_id (db (snd (edit_book rt i req s))) = map book_id (db s)"
    by (rule edit_book_ids)
next
  show "set (db (snd (delete_book i s))) \<subseteq> set (db s)"
    using delete_book_db [of i s] by auto
qed

theorem ids_distinct_among_stored_witness:
  "distinct (map book_id (db one_book)) \<and>
   distinct (map book_id
     (db (run sample_runtime [Create post_dune, Delete 1, Create post_dune] one_book))) \<and>
   fst (add_book sample_runtime post_dune no_books) = Inr Redirect_index \<and>
   (\<exists>b. db (snd (add_book sample_runtime post_dune no_books)) = db no_books @ [b] \<and>
        book_id b = 1 \<and> book_id b \<notin> book_id ` set (db no_books)) \<and>
   fst (add_book sample_runtime post_dune one_book) = Inr Redirect_index \<and>
   (\<exists>b. db (snd (add_book sample_runtime post_dune one_book)) = db one_book @ [b] \<and>
        book_id b = 2 \<and> book_id b \<notin> book_id ` set (db one_book))"
proof -
  have d: "distinct (map book_id (db one_book))" by (simp add: one_book_def)
  have a: "fst (add_book sample_runtime post_dune no_books) = Inr Redirect_index"
    by (simp add: add_post_dune_no_books)
  have a': "fst (add_book sample_runtime post_dune one_book) = Inr Redirect_index"
    by (simp add: add_book_def post_dune_def one_book_def load_form_data_def
        MAX_CONTENT_LENGTH_def sample_accepts add_book_cover_def default_cover_def new_book_def
        read_scalars_def form_item_def dune_form_def sample_int_1965 session_add_commit_def
        sqlite_integer_1965)
  note t1 = ids_distinct_among_stored [where s = one_book and rt = sample_runtime
      and ops = "[Create post_dune, Delete 1, Create post_dune]", THEN conjunct1, rule_format, OF d]
  note t2 = ids_distinct_among_stored [where s = no_books and rt = sample_runtime
      and req = post_dune, THEN conjunct2, THEN conjunct1, rule_format, OF a]
  note t3 = ids_distinct_among_stored [where s = one_book and rt = sample_runtime
      and req = post_dune, THEN conjunct2, THEN conjunct1, rule_format, OF a']
  from t2 have c2: "\<exists>b. db (snd (add_book sample_runtime post_dune no_books)) = db no_books @ [b] \<and>
        book_id b = 1 \<and> book_id b \<notin> book_id ` set (db no_books)"
    by (simp add: no_books_def)
  from t3 have c3: "\<exists>b. db (snd (add_book sample_runtime post_dune one_book)) = db one_book @ [b] \<and>
        book_id b = 2 \<and> book_id b \<notin> book_id ` set (db one_book)"
    by (simp add: one_book_def dune_def)
  show ?thesis by (intro conjI d a a' t1 c2 c3)
qed

section \<open>The allowed extensions are not consulted\<close>

text \<open>
  Claim C8, as stated, fails for a file whose non-empty name sanitises to the empty
  string: uploaded under the name \<open>..\<close>, the file is not written, the request fails and
  the state is what it was.
\<close>

theorem upload_named_dotdot_not_written:
  "filename \<lparr>filename = ''..'', content = ''JFIF''\<rparr> \<noteq> [] \<and>
   files (post_with ''..'' ''1965'') ''cover_image'' = Some \<lparr>filename = ''..'', content = ''JFIF''\<rparr> \<and>
   add_book sample_runtime (post_with ''..'' ''1965'') no_books = (Inl IsADirectoryError, no_books)"
  by (simp add: add_book_def post_with_def load_form_data_def MAX_CONTENT_LENGTH_def
        sample_accepts add_book_cover_def store_upload_eq sample_nfkd secure_filename_dotdot)

text \<open>
  Claim C8, amended. For every submission that the framework accepts with a file of
  non-empty name, the handler takes the saving branch whatever the extension: the cover is
  what \<open>store_upload\<close> gives, and \<open>allowed_file\<close> and \<open>ALLOWED_EXTENSIONS\<close> occur in no
  handler. When the sanitised name is not empty and the file system does not refuse the
  path, the file is written under that name in the uploads directory, by the add handler
  and, for a stored key and readable scalars, by the edit handler, with any extension or
  none.
\<close>

theorem upload_saved_whatever_extension:
  assumes "rq_method req = POST" and "content_length req \<le> MAX_CONTENT_LENGTH"
    and "\<not> body_refused rt req"
    and "files req ''cover_image'' = Some f" and "filename f \<noteq> []"
  shows "add_book_cover rt req (fs s) = store_upload rt f (fs s) \<and>
         (secure_filename (normalize_nfkd rt) (filename f) \<noteq> [] \<and>
          \<not> write_refused rt (fs s)
              (UPLOAD_FOLDER @ ''/'' @ secure_filename (normalize_nfkd rt) (filename f))
              (content f) \<longrightarrow>
            fs (snd (add_book rt req s)) =
              (fs s)(UPLOAD_FOLDER @ ''/'' @ secure_filename (normalize_nfkd rt) (filename f)
                       \<mapsto> content f)) \<and>
         (secure_filename (normalize_nfkd rt) (filename f) \<noteq> [] \<and>
          \<not> write_refused rt (fs s)
              (UPLOAD_FOLDER @ ''/'' @ secure_filename (normalize_nfkd rt) (filename f))
              (content f) \<and>
          get_or_404 (db s) i = Inr b \<and> (\<exists>v. read_scalars rt req = Inr v) \<longrightarrow>
            fs (snd (edit_book rt i req s)) =
              (fs s)(UPLOAD_FOLDER @ ''/'' @ secure_filename (normalize_nfkd rt) (filename f)
                       \<mapsto> content f))"
  using assms by (simp add: add_book_cover_def add_book_fs_eq edit_book_fs_eq)

theorem upload_saved_whatever_extension_witness:
  "rq_method (post_with ''notes.exe'' ''1965'') = POST \<and>
   content_length (post_with ''notes.exe'' ''1965'') \<le> MAX_CONTENT_LENGTH \<and>
   \<not> body_refused sample_runtime (post_with ''notes.exe'' ''1965'') \<and>
   files (post_with ''notes.exe'' ''1965'') ''cover_image''
     = Some \<lparr>filename = ''notes.exe'', content = ''JFIF''\<rparr> \<and>
   \<not> allowed_file ''notes.exe'' \<and>
   secure_filename (normalize_nfkd sample_runtime) ''notes.exe'' = ''notes.exe'' \<and>
   \<not> write_refused sample_runtime (fs no_books) ''static/images/uploads/notes.exe'' ''JFIF'' \<and>
   fs (snd (add_book sample_runtime (post_with ''notes.exe'' ''1965'') no_books)) =
     [''static/images/uploads/notes.exe'' \<mapsto> ''JFIF''] \<and>
   get_or_404 (db one_book) 1 = Inr dune \<and>
   read_scalars sample_runtime (post_with ''notes.exe'' ''1965'') =
     Inr (''Dune'', ''Frank Herbert'', 1965, ''desc'') \<and>
   fs (snd (edit_book sample_runtime 1 (post_with ''notes.exe'' ''1965'') one_book)) =
     [''static/images/uploads/notes.exe'' \<mapsto> ''JFIF'']"
proof -
  let ?req = "post_with ''notes.exe'' ''1965''"
  let ?f = "\<lparr>filename = ''notes.exe'', content = ''JFIF''\<rparr>"
  have h1: "rq_method ?req = POST" by (simp add: post_with_def)
  have h2: "content_length ?req \<le> MAX_CONTENT_LENGTH"
    by (simp add: post_with_def MAX_CONTENT_LENGTH_def)
  have h3: "files ?req ''cover_image'' = Some ?f" by (simp add: post_with_def)
  have h4: "filename ?f \<noteq> []" by simp
  have na: "\<not> allowed_file ''notes.exe''" by code_simp
  have sn: "secure_filename (normalize_nfkd sample_runtime) ''notes.exe'' = ''notes.exe''"
    by (simp add: sample_nfkd secure_filename_exe)
  note g = get_1_one_book
  have r: "read_scalars sample_runtime ?req = Inr (''Dune'', ''Frank Herbert'', 1965, ''desc'')"
    by (simp add: read_scalars_def form_item_def post_with_def dune_form_def sample_int_1965)
  note t = upload_saved_whatever_extension [OF h1 h2 sample_accepts h3 h4]
  from t [where s = no_books]
  have a: "fs (snd (add_book sample_runtime ?req no_books)) =
      [''static/images/uploads/notes.exe'' \<mapsto> ''JFIF'']"
    by (simp add: sn sample_writes UPLOAD_FOLDER_def no_books_def)
  from t [where s = one_book and i = 1 and b = dune] g r
  have e: "fs (snd (edit_book sample_runtime 1 ?req one_book)) =
      [''static/images/uploads/notes.exe'' \<mapsto> ''JFIF'']"
    by (simp add: sn sample_writes UPLOAD_FOLDER_def one_book_def)
  show ?thesis by (intro conjI h1 h2 sample_accepts h3 na sn sample_writes a g r e)
qed

section \<open>The size limit\<close>

text \<open>
  Claim C9. A submission that uploads a file of more than \<open>MAX_CONTENT_LENGTH\<close> bytes
  (20 MiB) has a body longer than the limit; the add handler, and the edit handler for a
  stored key, fail with \<open>RequestEntityTooLarge\<close> and leave the table and the disk exactly
  as they were, so nothing is written. For every key the edit handler leaves the state as
  it was.
\<close>

theorem oversize_upload_rejected:
  assumes "rq_method req = POST" and "files req k = Some f"
    and "MAX_CONTENT_LENGTH < length (content f)"
    and "length (content f) \<le> content_length req"
  shows "MAX_CONTENT_LENGTH = 20 * 2 ^ 20 \<and>
         add_book rt req s = (Inl RequestEntityTooLarge, s) \<and>
         (sqlite_integer i \<and> i \<in> book_id ` set (db s) \<longrightarrow>
            edit_book rt i req s = (Inl RequestEntityTooLarge, s)) \<and>
         (\<exists>e. edit_book rt i req s = (Inl e, s)) \<and>
         fs (snd (edit_book rt i req s)) = fs s"
proof -
  have big: "MAX_CONTENT_LENGTH < content_length req" using assms(3,4) by simp
  have lf: "load_form_data rt req = Inl RequestEntityTooLarge"
    using load_form_data_large [OF big] .
  have a: "add_book rt req s = (Inl RequestEntityTooLarge, s)"
    using assms(1) lf by (simp add: add_book_def)
  have e: "sqlite_integer i \<and> i \<in> book_id ` set (db s) \<longrightarrow>
      edit_book rt i req s = (Inl RequestEntityTooLarge, s)"
  proof
    assume "sqlite_integer i \<and> i \<in> book_id ` set (db s)"
    then obtain b where "get_or_404 (db s) i = Inr b"
      using get_or_404_present [of i "db s"] by blast
    then show "edit_book rt i req s = (Inl RequestEntityTooLarge, s)"
      using assms(1) lf by (simp add: edit_book_def)
  qed
  have n: "\<exists>e. edit_book rt i req s = (Inl e, s)"
    using get_or_404_cases [of "db s" i] assms(1) lf by (auto simp: edit_book_def)
  then have f: "fs (snd (edit_book rt i req s)) = fs s" by auto
  show ?thesis using a e n f by (simp add: MAX_CONTENT_LENGTH_def)
qed

theorem oversize_upload_rejected_witness:
  "rq_method post_big = POST \<and> files post_big ''cover_image'' = Some big_upload \<and>
   MAX_CONTENT_LENGTH < length (content big_upload) \<and>
   length (content big_upload) \<le> content_length post_big \<and>
   sqlite_integer 1 \<and> 1 \<in> book_id ` set (db one_book) \<and>
   add_book sample_runtime post_big one_book = (Inl RequestEntityTooLarge, one_book) \<and>
   edit_book sample_runtime 1 post_big one_book = (Inl RequestEntityTooLarge, one_book)"
proof -
  have h1: "rq_method post_big = POST" by (simp add: post_big_def)
  have h2: "files post_big ''cover_image'' = Some big_upload" by (simp add: post_big_def)
  have h3: "MAX_CONTENT_LENGTH < length (content big_upload)"
    by (simp add: big_upload_def MAX_CONTENT_LENGTH_def)
  have h4: "length (content big_upload) \<le> content_length post_big"
    by (simp add: big_upload_def post_big_def)
  have h5: "1 \<in> book_id ` set (db one_book)" by (simp add: one_book_def dune_def)
  from oversize_upload_rejected [OF h1 h2 h3 h4, of sample_runtime one_book 1] h1 h2 h3 h4 h5
    sqlite_integer_1
  show ?thesis by blast
qed

section \<open>A failed creation can leave a file\<close>

text \<open>
  Claim C10, as stated, fails for a file whose non-empty name sanitises to the empty
  string: uploaded under the name \<open>_\<close> with the year \<open>abc\<close>, the request fails before
  anything is written, and no file is left.
\<close>

theorem upload_named_underscore_bad_year:
  "filename \<lparr>filename = ''_'', content = ''JFIF''\<rparr> \<noteq> [] \<and>
   files (post_with ''_'' ''abc'') ''cover_image'' = Some \<lparr>filename = ''_'', content = ''JFIF''\<rparr> \<and>
   form (post_with ''_'' ''abc'') ''year'' = Some ''abc'' \<and>
   int_of_str sample_runtime ''abc'' = None \<and>
   add_book sample_runtime (post_with ''_'' ''abc'') no_books = (Inl IsADirectoryError, no_books)"
  by (simp add: add_book_def post_with_def load_form_data_def MAX_CONTENT_LENGTH_def
        sample_accepts add_book_cover_def store_upload_eq sample_nfkd
        secure_filename_underscore sample_int_abc)

text \<open>
  Claim C10, amended. For every submission of the add form that the framework accepts and
  that uploads a file whose name is not empty, does not sanitise to the empty string and
  names a path the file system does not refuse, together with a year that \<open>int\<close> rejects,
  the request fails, the table is unchanged, and the uploaded bytes are on disk under the
  sanitised name in the uploads directory.
\<close>

theorem failed_create_leaves_file:
  assumes "rq_method req = POST" and "content_length req \<le> MAX_CONTENT_LENGTH"
    and "\<not> body_refused rt req"
    and "files req ''cover_image'' = Some f" and "filename f \<noteq> []"
    and "secure_filename (normalize_nfkd rt) (filename f) \<noteq> []"
    and "\<not> write_refused rt (fs s)
            (UPLOAD_FOLDER @ ''/'' @ secure_filename (normalize_nfkd rt) (filename f))
            (content f)"
    and "form req ''year'' = Some ys" and "int_of_str rt ys = None"
  shows "(\<exists>e. fst (add_book rt req s) = Inl e) \<and>
         db (snd (add_book rt req s)) = db s \<and>
         fs (snd (add_book rt req s)) =
           (fs s)(UPLOAD_FOLDER @ ''/'' @ secure_filename (normalize_nfkd rt) (filename f)
                    \<mapsto> content f) \<and>
         fs (snd (add_book rt req s))
            (UPLOAD_FOLDER @ ''/'' @ secure_filename (normalize_nfkd rt) (filename f))
           = Some (content f)"
proof -
  have "\<exists>e. read_scalars rt req = Inl e"
    using read_scalars_bad [of req rt] assms(8,9) by blast
  then obtain e where e: "read_scalars rt req = Inl e" ..
  then have "fst (add_book rt req s) = Inl e"
    using assms(1-7)
    by (simp add: add_book_def load_form_data_def add_book_cover_def store_upload_eq new_book_def)
  moreover from this have "db (snd (add_book rt req s)) = db s" by (rule add_book_error_db)
  moreover have f: "fs (snd (add_book rt req s)) =
           (fs s)(UPLOAD_FOLDER @ ''/'' @ secure_filename (normalize_nfkd rt) (filename f)
                    \<mapsto> content f)"
    using assms(1-7) by (simp add: add_book_fs_eq)
  ultimately show ?thesis by simp
qed

theorem failed_create_leaves_file_witness:
  "rq_method (post_with ''dune.jpg'' ''abc'') = POST \<and>
   content_length (post_with ''dune.jpg'' ''abc'') \<le> MAX_CONTENT_LENGTH \<and>
   \<not> body_refused sample_runtime (post_with ''dune.jpg'' ''abc'') \<and>
   files (post_with ''dune.jpg'' ''abc'') ''cover_image''
     = Some \<lparr>filename = ''dune.jpg'', content = ''JFIF''\<rparr> \<and>
   secure_filename (normalize_nfkd sample_runtime) ''dune.jpg'' = ''dune.jpg'' \<and>
   \<not> write_refused sample_runtime (fs no_books) ''static/images/uploads/dune.jpg'' ''JFIF'' \<and>
   form (post_with ''dune.jpg'' ''abc'') ''year'' = Some ''abc'' \<and>
   int_of_str sample_runtime ''abc'' = None \<and>
   fst (add_book sample_runtime (post_with ''dune.jpg'' ''abc'') no_books) = Inl ValueError \<and>
   db (snd (add_book sample_runtime (post_with ''dune.jpg'' ''abc'') no_books)) = [] \<and>
   fs (snd (add_book sample_runtime (post_with ''dune.jpg'' ''abc'') no_books)) =
     [''static/images/uploads/dune.jpg'' \<mapsto> ''JFIF'']"
proof -
  let ?req = "post_with ''dune.jpg'' ''abc''"
  let ?f = "\<lparr>filename = ''dune.jpg'', content = ''JFIF''\<rparr>"
  have h1: "rq_method ?req = POST" by (simp add: post_with_def)
  have h2: "content_length ?req \<le> MAX_CONTENT_LENGTH"
    by (simp add: post_with_def MAX_CONTENT_LENGTH_def)
  have h3: "files ?req ''cover_image'' = Some ?f" by (simp add: post_with_def)
  have h4: "filename ?f \<noteq> []" by simp
  have sn: "secure_filename (normalize_nfkd sample_runtime) ''dune.jpg'' = ''dune.jpg''"
    by (simp add: sample_nfkd secure_filename_dune)
  have h5: "secure_filename (normalize_nfkd sample_runtime) (filename ?f) \<noteq> []"
    by (simp add: sn)
  have h6: "form ?req ''year'' = Some ''abc''" by (simp add: post_with_def)
  note t = failed_create_leaves_file [OF h1 h2 sample_accepts h3 h4 h5 sample_writes h6
      sample_int_abc, of no_books]
  have v: "fst (add_book sample_runtime ?req no_books) = Inl ValueError"
    by (simp add: add_book_def post_with_def no_books_def load_form_data_def
          MAX_CONTENT_LENGTH_def sample_accepts add_book_cover_def store_upload_dune
          new_book_def read_scalars_def form_item_def dune_form_def sample_int_abc)
  from t have d: "db (snd (add_book sample_runtime ?req no_books)) = []"
    by (simp add: no_books_def)
  from t have f: "fs (snd (add_book sample_runtime ?req no_books)) =
     [''static/images/uploads/dune.jpg'' \<mapsto> ''JFIF'']"
    by (simp add: sn UPLOAD_FOLDER_def no_books_def)
  show ?thesis by (intro conjI h1 h2 sample_accepts h3 sn sample_writes h6 sample_int_abc v d f)
qed


end
